theory Spec2Isabelle
  imports Complex_Main "HOL-Library.Multiset"
begin

section \<open>JavaScript primitives used by the game\<close>

text \<open>
  The repository holds four versions of one game, a page on which the player looks for
  one shade of white among many: \<open>main.js\<close> and the file with the score history keep
  the game in global variables (the second adds \<open>score_history5\<close> and \<open>miss_cnt\<close> to
  the first and otherwise differs in the wording of two comments only), the file with
  the \<open>state\<close> object and the class-based file declare a class \<open>Color\<close>, and the
  class-based file a class \<open>Game\<close>. All four start with the same \<open>shuffle\<close>.

  Numbers that the game keeps in colour channels, counters and time stamps are integers
  (\<open>int\<close>); the score, which is divided by \<open>step ** 2\<close>, is a \<open>real\<close>. Both stand for
  JavaScript's doubles, which are exact on the integers the game reaches.

  \<open>Math.random()\<close> is the \<open>k\<close>-th value of a random source \<open>rnd :: nat \<Rightarrow> real\<close>; its
  contract, a value in \<open>[0, 1)\<close>, is the predicate \<open>random_source\<close>.
\<close>

definition random_source :: "(nat \<Rightarrow> real) \<Rightarrow> bool" where
  "random_source rnd = (\<forall>k. 0 \<le> rnd k \<and> rnd k < 1)"

text \<open>\<open>Math.floor(u * n)\<close>, an integer.\<close>

definition floor_mul :: "real \<Rightarrow> int \<Rightarrow> int" where
  "floor_mul u n = \<lfloor>u * of_int n\<rfloor>"

text \<open>
  The operator \<open>%\<close> on integers: the remainder takes the sign of the dividend
  (\<open>-5 % 256\<close> is \<open>-5\<close>). The game only divides by \<open>0x100\<close>.
\<close>

definition js_rem :: "int \<Rightarrow> int \<Rightarrow> int" where
  "js_rem a m = (if a < 0 then - ((- a) mod \<bar>m\<bar>) else a mod \<bar>m\<bar>)"

text \<open>\<open>n.toString(16)\<close> on an integer: lowercase digits, a minus sign before a negative.\<close>

definition digit16 :: "nat \<Rightarrow> char" where
  "digit16 d = ''0123456789abcdef'' ! d"

function toString16_nat :: "nat \<Rightarrow> string" where
  "toString16_nat n =
     (if n < 16 then [digit16 n] else toString16_nat (n div 16) @ [digit16 (n mod 16)])"
  by pat_completeness auto
termination
  by (relation "measure (\<lambda>n. n)") auto

definition toString16 :: "int \<Rightarrow> string" where
  "toString16 n =
     (if n < 0 then CHR ''-'' # toString16_nat (nat (- n)) else toString16_nat (nat n))"

text \<open>\<open>s.padStart(n, c)\<close> with a one-character pad.\<close>

definition padStart :: "nat \<Rightarrow> char \<Rightarrow> string \<Rightarrow> string" where
  "padStart n c s = replicate (n - length s) c @ s"

text \<open>
  \<open>parseInt(s, 16)\<close> on a string of hexadecimal digits (the only strings \<open>fromHex\<close>
  hands to it: the groups of its regular expression).
\<close>

definition hexval :: "char \<Rightarrow> int" where
  "hexval c =
     (let n = (of_char c :: nat) in
      if 48 \<le> n \<and> n \<le> 57 then int n - 48
      else if 97 \<le> n \<and> n \<le> 102 then int n - 87
      else int n - 55)"

definition parseInt16 :: "string \<Rightarrow> int" where
  "parseInt16 s = foldl (\<lambda>a c. 16 * a + hexval c) 0 s"

text \<open>
  \<open>array.slice(0, num)\<close>: a negative \<open>num\<close> counts from the end of the array.
\<close>

definition slice0 :: "'a list \<Rightarrow> int \<Rightarrow> 'a list" where
  "slice0 xs num =
     (if 0 \<le> num then take (nat num) xs else take (nat (int (length xs) + num)) xs)"

section \<open>shuffle\<close>

text \<open>
  \<^verbatim>\<open>
  const shuffle = ([...array]) => {
      for (let i = array.length - 1; i > 0; i--) {
          const j = Math.floor(Math.random() * (i + 1));
          [array[i], array[j]] = [array[j], array[i]];
      }
      return array;
  };
  \<close>
  The same text in all four files. The destructuring assignment reads \<open>array[j]\<close> and
  \<open>array[i]\<close> first and then writes index \<open>i\<close>, then index \<open>j\<close>. The loop's \<open>k\<close>
  counts the calls of \<open>Math.random\<close>. With a random source that keeps its contract
  \<open>j\<close> is at most \<open>i\<close>, so no read or write is out of range.
\<close>

definition random_index :: "real \<Rightarrow> nat \<Rightarrow> nat" where
  "random_index u n = nat (floor_mul u (int n))"

definition swap :: "'a list \<Rightarrow> nat \<Rightarrow> nat \<Rightarrow> 'a list" where
  "swap array i j = (array[i := array ! j])[j := array ! i]"

fun shuffle_loop :: "(nat \<Rightarrow> real) \<Rightarrow> nat \<Rightarrow> nat \<Rightarrow> 'a list \<Rightarrow> 'a list" where
  "shuffle_loop rnd k 0 array = array"
| "shuffle_loop rnd k (Suc i) array =
     shuffle_loop rnd (Suc k) i (swap array (Suc i) (random_index (rnd k) (Suc i + 1)))"

definition shuffle :: "(nat \<Rightarrow> real) \<Rightarrow> 'a list \<Rightarrow> 'a list" where
  "shuffle rnd array = shuffle_loop rnd 0 (length array - 1) array"

text \<open>
  The same function on a store of arrays, where the caller's array and the copy are two
  cells: an address is an index into the store, the spread parameter \<open>[...array]\<close>
  allocates a new cell holding a copy, and every swap writes that cell in place.
\<close>

type_synonym 'a store = "'a list list"

definition spread :: "'a store \<Rightarrow> nat \<Rightarrow> nat \<times> 'a store" where
  "spread h a = (length h, h @ [h ! a])"

fun shuffle_loop_store :: "(nat \<Rightarrow> real) \<Rightarrow> nat \<Rightarrow> nat \<Rightarrow> nat \<Rightarrow> 'a store \<Rightarrow> 'a store" where
  "shuffle_loop_store rnd k 0 p h = h"
| "shuffle_loop_store rnd k (Suc i) p h =
     shuffle_loop_store rnd (Suc k) i p
       (h[p := swap (h ! p) (Suc i) (random_index (rnd k) (Suc i + 1))])"

definition shuffle_store :: "(nat \<Rightarrow> real) \<Rightarrow> 'a store \<Rightarrow> nat \<Rightarrow> nat \<times> 'a store" where
  "shuffle_store rnd h a =
     (let (p, h1) = spread h a
      in (p, shuffle_loop_store rnd 0 (length (h1 ! p) - 1) p h1))"

section \<open>Color\<close>

text \<open>
  The class \<open>Color\<close> of the class-based file and of the file with the \<open>state\<close> object
  (the two texts agree up to the shape of the constructor's argument). A channel is whatever the constructor stored:
  \<open>this.r = r % 0x100\<close>.
\<close>

record Color =
  r :: int
  g :: int
  b :: int

definition new_Color :: "int \<Rightarrow> int \<Rightarrow> int \<Rightarrow> Color" where
  "new_Color x y z = \<lparr>r = js_rem x 256, g = js_rem y 256, b = js_rem z 256\<rparr>"

text \<open>\<open>paddedHex(n)\<close>: \<open>(n % 0x100).toString(16).padStart(2, "0")\<close>.\<close>

definition paddedHex :: "int \<Rightarrow> string" where
  "paddedHex n = padStart 2 (CHR ''0'') (toString16 (js_rem n 256))"

text \<open>\<open>toString()\<close>, which the file with the \<open>state\<close> object calls \<open>toHex()\<close>.\<close>

definition toString :: "Color \<Rightarrow> string" where
  "toString c = CHR ''#'' # paddedHex (r c) @ paddedHex (g c) @ paddedHex (b c)"

text \<open>
  \<open>fromHex(hex)\<close>: \<open>hex.match(/#([0-9a-f]{2})([0-9a-f]{2})([0-9a-f]{2})/i)\<close>. The
  expression has no anchors, so \<open>match\<close> searches the string from the left for the first
  \<open>#\<close> that six hexadecimal digits follow; \<open>regex_match\<close> returns those six digits.
  Strings are lists of 8-bit characters here.
\<close>

definition is_hex :: "char \<Rightarrow> bool" where
  "is_hex c = (c \<in> set ''0123456789abcdefABCDEF'')"

fun regex_match :: "string \<Rightarrow> string option" where
  "regex_match [] = None"
| "regex_match (c # cs) =
     (if c = CHR ''#'' \<and> 6 \<le> length cs \<and> list_all is_hex (take 6 cs)
      then Some (take 6 cs) else regex_match cs)"

definition fromHex :: "string \<Rightarrow> Color option" where
  "fromHex hex =
     (case regex_match hex of
        None \<Rightarrow> None
      | Some d \<Rightarrow>
          Some (new_Color (parseInt16 (take 2 d)) (parseInt16 (take 2 (drop 2 d)))
                  (parseInt16 (take 2 (drop 4 d)))))"

text \<open>\<open>eq(other)\<close> and \<open>diff(other)\<close>; \<open>other\<close> may be \<open>null\<close> or \<open>undefined\<close>.\<close>

definition eq_color :: "Color \<Rightarrow> Color option \<Rightarrow> bool" where
  "eq_color c other =
     (case other of None \<Rightarrow> False | Some c' \<Rightarrow> r c = r c' \<and> g c = g c' \<and> b c = b c')"

definition diff :: "Color \<Rightarrow> Color option \<Rightarrow> int" where
  "diff c other =
     (case other of
        None \<Rightarrow> - 1
      | Some c' \<Rightarrow> (r c - r c')\<^sup>2 + (g c - g c')\<^sup>2 + (b c - b c')\<^sup>2)"

text \<open>\<open>cloneWithDiff(r, g, b, multiplier)\<close> of the class-based file.\<close>

definition cloneWithDiff :: "Color \<Rightarrow> int \<Rightarrow> int \<Rightarrow> int \<Rightarrow> int \<Rightarrow> Color" where
  "cloneWithDiff c dr dg db multiplier =
     new_Color (r c - dr * multiplier) (g c - dg * multiplier) (b c - db * multiplier)"

text \<open>\<open>withDiff({r, g, b})\<close> of the file with the \<open>state\<close> object: it adds.\<close>

definition withDiff :: "Color \<Rightarrow> int \<Rightarrow> int \<Rightarrow> int \<Rightarrow> Color" where
  "withDiff c dr dg db = new_Color (r c + dr) (g c + dg) (b c + db)"

section \<open>The palette\<close>

text \<open>
  The three nested loops \<open>for r, g, b = 0 .. 5\<close> push one colour per triple, \<open>b\<close> running
  fastest.
\<close>

definition offsets :: "(int \<times> int \<times> int) list" where
  "offsets = [(x, y, z). x \<leftarrow> [0..5], y \<leftarrow> [0..5], z \<leftarrow> [0..5]]"

text \<open>An array read \<open>xs[i]\<close>: \<open>undefined\<close> (here \<open>None\<close>) outside the array.\<close>

definition array_get :: "'a list \<Rightarrow> int \<Rightarrow> 'a option" where
  "array_get xs i = (if 0 \<le> i \<and> i < int (length xs) then Some (xs ! nat i) else None)"

datatype error = TypeError

text \<open>
  An uncaught \<open>TypeError\<close> (a property read on \<open>undefined\<close>) ends the running event
  handler; a function that can raise returns \<open>Inl TypeError\<close> there, and the model says
  nothing about the fields already assigned when it was raised. Elements that the page's
  HTML declares are taken to exist; writes to the page are left out, except for the
  values the claims are about, which the functions return.
\<close>

section \<open>Game (the class-based file)\<close>

record Game =
  score :: real
  tryCount :: nat
  startTime :: "int option"
  colorStep :: int
  colors :: "Color list"
  answer :: "Color option"

definition white :: Color where
  "white = new_Color 255 255 255"

text \<open>
  The constructor \<open>new Game(num, difficulty)\<close>. \<open>shuffle\<close> calls \<open>Math.random\<close> once
  per index from 215 down to 1; the answer takes the next value. \<open>this.colors[...]\<close> is
  \<open>undefined\<close> when the sliced palette is empty.
\<close>

definition Game_colors :: "int \<Rightarrow> Color list" where
  "Game_colors difficulty = map (\<lambda>(x, y, z). cloneWithDiff white x y z difficulty) offsets"

definition new_Game :: "int \<Rightarrow> int \<Rightarrow> (nat \<Rightarrow> real) \<Rightarrow> Game" where
  "new_Game num difficulty rnd =
     (let cs = slice0 (shuffle rnd (Game_colors difficulty)) num
      in \<lparr>score = (if difficulty = 1 then 1000 else 100),
          tryCount = 0,
          startTime = None,
          colorStep = difficulty,
          colors = cs,
          answer = array_get cs (floor_mul (rnd (length (Game_colors difficulty) - 1))
                                  (int (length cs)))\<rparr>)"

text \<open>
  The method \<open>start()\<close>: \<open>View.showTarget\<close> calls \<open>props.color.toString()\<close>, a
  \<open>TypeError\<close> when the answer is \<open>undefined\<close>.
\<close>

definition Game_start :: "Game \<Rightarrow> int \<Rightarrow> error + Game" where
  "Game_start gm now =
     (case answer gm of
        None \<Rightarrow> Inl TypeError
      | Some a \<Rightarrow> Inr (gm\<lparr>startTime := Some now\<rparr>))"

text \<open>
  The pairs of comments are fixed texts in Japanese, one pair per rule; the datatype
  names the rule: \<open>TutorialDone\<close> the pair of \<open>step != 1\<close>, \<open>FirstTry\<close> of
  \<open>tryCount == 1\<close>, \<open>FastSolve\<close> of \<open>elapsed <= 10000\<close>, \<open>WithinTen\<close> of
  \<open>try_num <= 10\<close>, \<open>NoComment\<close> the pair of empty strings.
\<close>

datatype comment = TutorialDone | FirstTry | FastSolve | WithinTen | NoComment

text \<open>What a try hands to \<open>View.showSuccess\<close> or \<open>View.showFailure\<close>.\<close>

datatype shown = ShowSuccess int comment | ShowFailure string real

definition onSuccess :: "Game \<Rightarrow> int \<Rightarrow> error + shown" where
  "onSuccess gm now =
     (case startTime gm of
        None \<Rightarrow> Inl TypeError
      | Some t0 \<Rightarrow>
          (let elapsed = now - t0
           in Inr (ShowSuccess elapsed
                (if colorStep gm \<noteq> 1 then TutorialDone
                 else if tryCount gm = 1 then FirstTry
                 else if elapsed \<le> 10000 then FastSolve
                 else NoComment))))"

text \<open>
  \<open>onFailure(color)\<close>. The quotient is a real number; for \<open>colorStep = 0\<close> JavaScript
  yields an infinity or NaN, which \<open>real\<close> has not, so what is proved of the penalty
  assumes a step that is not 0.
\<close>

definition onFailure :: "Game \<Rightarrow> Color \<Rightarrow> Game \<times> shown" where
  "onFailure gm color =
     (let d = real_of_int (diff color (answer gm)) / (real_of_int (colorStep gm))\<^sup>2
      in (gm\<lparr>score := score gm - d\<rparr>, ShowFailure (toString color) d))"

text \<open>\<open>onTry(hex)\<close> returns \<open>true\<close>, \<open>false\<close> or \<open>null\<close>, here a \<open>bool option\<close>.\<close>

definition onTry :: "Game \<Rightarrow> string \<Rightarrow> int \<Rightarrow> error + (bool option \<times> Game \<times> shown option)" where
  "onTry gm hex now =
     (if startTime gm = None then Inr (None, gm, None)
      else case fromHex hex of
        None \<Rightarrow> Inr (None, gm, None)
      | Some color \<Rightarrow>
          (let gm1 = gm\<lparr>tryCount := tryCount gm + 1\<rparr>
           in case answer gm1 of
                None \<Rightarrow> Inl TypeError
              | Some a \<Rightarrow>
                  if eq_color a (Some color)
                  then (case onSuccess gm1 now of
                          Inl e \<Rightarrow> Inl e
                        | Inr v \<Rightarrow> Inr (Some True, gm1, Some v))
                  else (let (gm2, v) = onFailure gm1 color
                        in Inr (Some False, gm2, Some v))))"

text \<open>
  The global \<open>game\<close> (\<open>null\<close> when no game runs) and the two global functions
  \<open>start(num, dif)\<close> and \<open>submit(hex)\<close> of the class-based file. The second is
  \<open>submit_hex\<close> here: \<open>submit\<close> is the handler \<open>submit(r, g, b)\<close> of the files on
  global variables. A try that \<open>onTry\<close> answers with \<open>null\<close> starts the tutorial round
  \<open>start(200, 3)\<close>.
\<close>

definition start :: "int \<Rightarrow> int \<Rightarrow> (nat \<Rightarrow> real) \<Rightarrow> int \<Rightarrow> error + Game option" where
  "start num dif rnd now =
     (case Game_start (new_Game num dif rnd) now of
        Inl e \<Rightarrow> Inl e
      | Inr gm \<Rightarrow> Inr (Some gm))"

definition submit_hex :: "Game option \<Rightarrow> string \<Rightarrow> (nat \<Rightarrow> real) \<Rightarrow> int \<Rightarrow> error + Game option" where
  "submit_hex game hex rnd now =
     (case game of
        None \<Rightarrow> Inr None
      | Some gm \<Rightarrow>
          (case onTry gm hex now of
             Inl e \<Rightarrow> Inl e
           | Inr (Some True, gm', v) \<Rightarrow> Inr None
           | Inr (Some False, gm', v) \<Rightarrow> Inr (Some gm')
           | Inr (None, gm', v) \<Rightarrow> start 200 3 rnd now))"

text \<open>
  The list that \<open>make_problem\<close> of the file with the \<open>state\<close> object builds:
  \<open>targetColor.withDiff({ r, g, b })\<close>, whatever \<open>dif\<close> is.
\<close>

definition make_problem_list :: "Color list" where
  "make_problem_list = map (\<lambda>(x, y, z). withDiff white x y z) offsets"

section \<open>The game on global variables (the file with the score history)\<close>

text \<open>
  A colour is the array \<open>[r, g, b]\<close>, here a triple. An entry of \<open>score_history5\<close> is the
  string \<open>"---"\<close> (\<open>Placeholder\<close>) or a score; so is the average \<open>ave\<close>. Beside the
  global variables the record holds \<open>palette\<close>, the hex codes of the swatches that
  \<open>make_problem\<close> wrote to the page as elements \<open>col_<hex>\<close>: a miss looks its
  swatch up by that id and raises when there is none.
\<close>

datatype hist = Placeholder | Score real

record globals =
  ac_color :: "int \<times> int \<times> int"
  ac_color_hex :: string
  color_step :: int
  start_time :: "int option"
  try_num :: nat
  score_num :: real
  enable_submit :: bool
  score_history5 :: "hist list"
  miss_cnt :: "string \<Rightarrow> nat option"
  palette :: "string list"

definition initial :: globals where
  "initial =
     \<lparr>ac_color = (- 1, - 1, - 1), ac_color_hex = [], color_step = 0, start_time = None,
      try_num = 0, score_num = 0, enable_submit = False,
      score_history5 = [Placeholder, Placeholder, Placeholder, Placeholder, Placeholder],
      miss_cnt = Map.empty, palette = []\<rparr>"

definition ColorToHex :: "int \<Rightarrow> string" where
  "ColorToHex color =
     (let hexadecimal = toString16 color
      in if length hexadecimal = 1 then CHR ''0'' # hexadecimal else hexadecimal)"

definition ConvertRGBtoHex :: "int \<times> int \<times> int \<Rightarrow> string" where
  "ConvertRGBtoHex col =
     (case col of (x, y, z) \<Rightarrow> ColorToHex x @ ColorToHex y @ ColorToHex z)"

text \<open>\<open>update_timer()\<close> returns \<open>undefined\<close> (\<open>None\<close>) when submissions are disabled.\<close>

definition update_timer :: "globals \<Rightarrow> int \<Rightarrow> error + int option" where
  "update_timer s now =
     (if \<not> enable_submit s then Inr None
      else case start_time s of
        None \<Rightarrow> Inl TypeError
      | Some t0 \<Rightarrow> Inr (Some (now - t0)))"

text \<open>
  The loop over the history: \<open>ave\<close> becomes \<open>"---"\<close> at the first placeholder, else the
  sum; then \<open>ave /= 5\<close> unless it is \<open>"---"\<close>.
\<close>

fun ave_loop :: "hist list \<Rightarrow> real \<Rightarrow> hist" where
  "ave_loop [] ave = Score ave"
| "ave_loop (Placeholder # vs) ave = Placeholder"
| "ave_loop (Score v # vs) ave = ave_loop vs (ave + v)"

definition average5 :: "hist list \<Rightarrow> hist" where
  "average5 h = (case ave_loop h 0 of Placeholder \<Rightarrow> Placeholder | Score a \<Rightarrow> Score (a / 5))"

text \<open>
  What \<open>submit\<close> writes to the page. On a hit: the time, the shown comment \<open>comment2\<close>,
  the shared \<open>comment\<close> (the rule's text, after the average when there is one) and
  \<open>ave_message\<close> (empty, \<open>None\<close>, unless the step is 1: then the average and the history).
  On a miss: the penalty \<open>dif\<close> and the counter shown in brackets for a repeated colour.
\<close>

datatype outcome =
    Ignored
  | Hit (hit_time: "int option") (comment2: comment) (shared: "hist \<times> comment")
      (ave_message: "(hist \<times> hist list) option")
  | Miss (miss_hex: string) (penalty: real) (miss_shown: "nat option")

text \<open>The chain of \<open>if\<close> and \<open>else if\<close> that picks the comments in \<open>submit\<close>.\<close>

definition classify :: "int \<Rightarrow> nat \<Rightarrow> int option \<Rightarrow> comment" where
  "classify step tries time =
     (if step \<noteq> 1 then TutorialDone
      else if tries = 1 then FirstTry
      else if (case time of None \<Rightarrow> False | Some t \<Rightarrow> t \<le> 10000) then FastSolve
      else if tries \<le> 10 then WithinTen
      else NoComment)"

definition submit :: "globals \<Rightarrow> int \<times> int \<times> int \<Rightarrow> int \<Rightarrow> error + (outcome \<times> globals)" where
  "submit s col now =
     (if \<not> enable_submit s then Inr (Ignored, s)
      else
        (let col_hex = ConvertRGBtoHex col;
             s1 = s\<lparr>try_num := try_num s + 1\<rparr>
         in if col_hex = ac_color_hex s1
            then (case update_timer s1 now of
                    Inl e \<Rightarrow> Inl e
                  | Inr time \<Rightarrow>
                      (let s2 = s1\<lparr>enable_submit := False\<rparr>;
                           c = classify (color_step s2) (try_num s2) time
                       in if color_step s2 = 1
                          then (let h = tl (score_history5 s2) @ [Score (score_num s2)];
                                    ave = average5 h
                                in Inr (Hit time c (ave, c) (Some (ave, h)),
                                        s2\<lparr>score_history5 := h\<rparr>))
                          else Inr (Hit time c (Placeholder, c) None, s2)))
            else
              (let (n, miss_txt) =
                     (case miss_cnt s1 col_hex of
                        None \<Rightarrow> (1, None)
                      | Some m \<Rightarrow> (m + 1, Some (m + 1)));
                   s2 = s1\<lparr>miss_cnt := (miss_cnt s1)(col_hex \<mapsto> n)\<rparr>;
                   dif = (case (ac_color s2, col) of
                            ((a0, a1, a2), (x, y, z)) \<Rightarrow>
                              real_of_int ((a0 - x)\<^sup>2 + (a1 - y)\<^sup>2 + (a2 - z)\<^sup>2)
                                / (real_of_int (color_step s2))\<^sup>2)
               in if col_hex \<in> set (palette s2)
                  then Inr (Miss col_hex dif miss_txt, s2\<lparr>score_num := score_num s2 - dif\<rparr>)
                  else Inl TypeError)))"

text \<open>
  \<open>make_problem(num, dif)\<close>. The loop that writes the swatches reads \<open>list[i]\<close> for
  every \<open>i < num\<close> and \<open>ConvertRGBtoHex\<close> raises on \<open>undefined\<close>, that is when \<open>num\<close>
  exceeds the 216 colours; so does the answer \<open>list[Math.floor(Math.random() * num)]\<close>
  when its index is negative.
\<close>

definition lattice :: "int \<Rightarrow> (int \<times> int \<times> int) list" where
  "lattice dif = map (\<lambda>(x, y, z). (255 - x * dif, 255 - y * dif, 255 - z * dif)) offsets"

definition make_problem :: "globals \<Rightarrow> int \<Rightarrow> int \<Rightarrow> (nat \<Rightarrow> real) \<Rightarrow> int \<Rightarrow> error + globals" where
  "make_problem s num dif rnd now =
     (let list = shuffle rnd (lattice dif)
      in if int (length list) < num then Inl TypeError
         else case array_get list (floor_mul (rnd (length (lattice dif) - 1)) num) of
           None \<Rightarrow> Inl TypeError
         | Some c \<Rightarrow>
             Inr (s\<lparr>color_step := dif,
                    palette := map ConvertRGBtoHex (take (nat num) list),
                    ac_color := c, ac_color_hex := ConvertRGBtoHex c,
                    miss_cnt := Map.empty,
                    score_num := (if dif = 1 then 1000 else 100), try_num := 0,
                    start_time := Some now, enable_submit := True\<rparr>))"

text \<open>
  A player who clicks the same colour once at each of the times \<open>ts\<close>: the handler
  \<open>submit\<close> called again and again on the globals the call before left.
\<close>

fun submit_again :: "globals \<Rightarrow> int \<times> int \<times> int \<Rightarrow> int list \<Rightarrow> error + globals" where
  "submit_again s col [] = Inr s"
| "submit_again s col (now # ts) =
     (case submit s col now of
        Inl e \<Rightarrow> Inl e
      | Inr (out, s') \<Rightarrow> submit_again s' col ts)"

section \<open>Properties of shuffle\<close>

lemma random_index_less:
  assumes "0 \<le> u" "u < 1" "0 < n"
  shows "random_index u n < n"
proof -
  have "u * real n < real n" using assms by simp
  then have "\<lfloor>u * real n\<rfloor> < int n" by (simp add: floor_less_iff)
  then show ?thesis
    using assms(3) by (simp add: random_index_def floor_mul_def nat_less_iff)
qed

lemma random_source_zero: "random_source (\<lambda>k. 0)"
  by (simp add: random_source_def)

lemma mset_swap_array: "i < length xs \<Longrightarrow> j < length xs \<Longrightarrow> mset (swap xs i j) = mset xs"
  unfolding swap_def by (rule mset_swap)

lemma length_swap: "length (swap xs i j) = length xs"
  by (simp add: swap_def)

lemma mset_shuffle_loop:
  "random_source rnd \<Longrightarrow> i < length xs \<Longrightarrow> mset (shuffle_loop rnd k i xs) = mset xs"
proof (induction i arbitrary: k xs)
  case 0
  then show ?case by simp
next
  case (Suc i)
  have j: "random_index (rnd k) (Suc i + 1) < Suc i + 1"
    using Suc.prems(1) by (intro random_index_less) (simp_all add: random_source_def)
  then have "random_index (rnd k) (Suc i + 1) < length xs"
    using Suc.prems(2) by simp
  then have "mset (swap xs (Suc i) (random_index (rnd k) (Suc i + 1))) = mset xs"
    using Suc.prems(2) by (simp add: mset_swap_array)
  moreover have "i < length (swap xs (Suc i) (random_index (rnd k) (Suc i + 1)))"
    using Suc.prems(2) by (simp add: length_swap)
  ultimately show ?case
    using Suc.IH [OF Suc.prems(1)] by simp
qed

lemma mset_shuffle: "random_source rnd \<Longrightarrow> mset (shuffle rnd xs) = mset xs"
proof (cases xs)
  case Nil
  then show ?thesis by (simp add: shuffle_def)
next
  case (Cons x xs')
  assume "random_source rnd"
  then show ?thesis
    unfolding shuffle_def by (rule mset_shuffle_loop) (simp add: Cons)
qed

lemma shuffle_loop_store_eq:
  "p < length h \<Longrightarrow>
   shuffle_loop_store rnd k i p h = h[p := shuffle_loop rnd k i (h ! p)]"
proof (induction i arbitrary: k h)
  case 0
  then show ?case by simp
next
  case (Suc i)
  then show ?case by simp
qed

lemma length_shuffle_loop: "length (shuffle_loop rnd k i xs) = length xs"
  by (induction i arbitrary: k xs) (simp_all add: length_swap)

lemma length_shuffle: "length (shuffle rnd xs) = length xs"
  by (simp add: shuffle_def length_shuffle_loop)

lemma shuffle_store_eq:
  "a < length h \<Longrightarrow> shuffle_store rnd h a = (length h, h @ [shuffle rnd (h ! a)])"
  by (simp add: shuffle_store_def spread_def shuffle_loop_store_eq shuffle_def nth_append)

text \<open>
  C10. For every array \<open>h ! a\<close> of the store and every random source, \<open>shuffle\<close> returns
  (at the new address \<open>p\<close>) an array with the same elements in the same multiplicities,
  and the store it leaves holds the caller's array, and every other array that was there,
  unchanged: the swaps write the copy made by the spread parameter.
\<close>

theorem shuffle_permutes_a_copy:
  assumes "random_source rnd" and "a < length h"
  shows "mset (snd (shuffle_store rnd h a) ! fst (shuffle_store rnd h a)) = mset (h ! a)
       \<and> snd (shuffle_store rnd h a) ! a = h ! a
       \<and> fst (shuffle_store rnd h a) \<noteq> a
       \<and> take (length h) (snd (shuffle_store rnd h a)) = h
       \<and> snd (shuffle_store rnd h a) ! fst (shuffle_store rnd h a) = shuffle rnd (h ! a)
       \<and> mset (shuffle rnd (h ! a)) = mset (h ! a)"
  using assms by (simp add: shuffle_store_eq mset_shuffle nth_append)

theorem shuffle_permutes_a_copy_witness:
  "mset (snd (shuffle_store (\<lambda>k. 0) [[1, 2, 3 :: nat]] 0)
          ! fst (shuffle_store (\<lambda>k. 0) [[1, 2, 3 :: nat]] 0)) = mset [1, 2, 3]
   \<and> snd (shuffle_store (\<lambda>k. 0) [[1, 2, 3 :: nat]] 0) ! 0 = [1, 2, 3]
   \<and> shuffle (\<lambda>k. 0) [1, 2, 3 :: nat] = [2, 3, 1]"
proof -
  have h1: "random_source (\<lambda>k. 0)" by (simp add: random_source_def)
  have h2: "0 < length [[1, 2, 3 :: nat]]" by simp
  have "shuffle (\<lambda>k. 0) [1, 2, 3 :: nat] = [2, 3, 1]"
    by (simp add: shuffle_def eval_nat_numeral swap_def random_index_def floor_mul_def)
  then show ?thesis
    using shuffle_permutes_a_copy [OF h1 h2] by simp
qed

section \<open>Properties of Color\<close>

lemma js_rem_nonneg: "0 \<le> a \<Longrightarrow> js_rem a 256 = a mod 256"
  by (simp add: js_rem_def)

lemma js_rem_byte: "0 \<le> a \<Longrightarrow> a \<le> 255 \<Longrightarrow> js_rem a 256 = a"
  by (simp add: js_rem_def)

lemma digit16_cases:
  "d < 16 \<Longrightarrow> d = 0 \<or> d = 1 \<or> d = 2 \<or> d = 3 \<or> d = 4 \<or> d = 5 \<or> d = 6 \<or> d = 7
     \<or> d = 8 \<or> d = 9 \<or> d = 10 \<or> d = 11 \<or> d = 12 \<or> d = 13 \<or> d = 14 \<or> d = (15::nat)"
  by arith

lemma hexval_digit16: "d < 16 \<Longrightarrow> hexval (digit16 d) = int d"
  by (drule digit16_cases) (auto simp: hexval_def digit16_def)

lemma is_hex_digit16: "d < 16 \<Longrightarrow> is_hex (digit16 d)"
  by (drule digit16_cases) (auto simp: is_hex_def digit16_def)

lemma toString16_nat_byte:
  "n < 256 \<Longrightarrow>
   toString16_nat n = (if n < 16 then [digit16 n] else [digit16 (n div 16), digit16 (n mod 16)])"
proof -
  assume "n < 256"
  then have "n div 16 < 16" by simp
  then show ?thesis
    by (subst toString16_nat.simps) (simp add: toString16_nat.simps [of "n div 16"])
qed

lemma digit16_0: "digit16 0 = CHR ''0''"
  by (simp add: digit16_def)

lemma paddedHex_byte:
  assumes "0 \<le> n" "n \<le> 255"
  shows "paddedHex n = [digit16 (nat n div 16), digit16 (nat n mod 16)]"
proof -
  have "nat n < 256" using assms by simp
  then show ?thesis
    using assms by (simp add: paddedHex_def js_rem_byte toString16_def toString16_nat_byte padStart_def digit16_0)
qed

lemma parseInt16_paddedHex:
  assumes "0 \<le> n" "n \<le> 255"
  shows "parseInt16 (paddedHex n) = n"
proof -
  have "nat n div 16 < 16" "nat n mod 16 < 16" using assms by simp_all
  then show ?thesis
    using assms by (simp add: paddedHex_byte parseInt16_def hexval_digit16 zdiv_int zmod_int)
qed

lemma regex_match_sharp:
  "length d = 6 \<Longrightarrow> list_all is_hex d \<Longrightarrow> regex_match (CHR ''#'' # d) = Some d"
  by simp

lemma fromHex_toString:
  assumes "0 \<le> r c" "r c \<le> 255" "0 \<le> g c" "g c \<le> 255" "0 \<le> b c" "b c \<le> 255"
  shows "fromHex (toString c) = Some c"
proof -
  let ?d = "paddedHex (r c) @ paddedHex (g c) @ paddedHex (b c)"
  have len: "length ?d = 6" using assms by (simp add: paddedHex_byte)
  have hex: "list_all is_hex ?d"
    using assms by (simp add: paddedHex_byte is_hex_digit16)
  have m: "regex_match (toString c) = Some ?d"
    unfolding toString_def using len hex by (rule regex_match_sharp)
  have l2: "length (paddedHex (r c)) = 2" "length (paddedHex (g c)) = 2" "length (paddedHex (b c)) = 2"
    using assms by (simp_all add: paddedHex_byte)
  have "fromHex (toString c) = Some (new_Color (r c) (g c) (b c))"
    using assms l2 by (simp add: fromHex_def m parseInt16_paddedHex)
  then show ?thesis using assms by (simp add: new_Color_def js_rem_byte)
qed

lemma regex_match_None_iff:
  "regex_match s = None \<longleftrightarrow>
   \<not> (\<exists>pre d post. s = pre @ CHR ''#'' # d @ post \<and> length d = 6 \<and> list_all is_hex d)"
proof (induction s)
  case Nil
  then show ?case by simp
next
  case (Cons c cs)
  show ?case
  proof (cases "c = CHR ''#'' \<and> 6 \<le> length cs \<and> list_all is_hex (take 6 cs)")
    case True
    then have "c # cs = [] @ CHR ''#'' # take 6 cs @ drop 6 cs \<and> length (take 6 cs) = 6
               \<and> list_all is_hex (take 6 cs)"
      by simp
    then have "\<exists>pre d post. c # cs = pre @ CHR ''#'' # d @ post \<and> length d = 6 \<and> list_all is_hex d"
      by blast
    then show ?thesis using True by simp
  next
    case False
    have "(\<exists>pre d post. c # cs = pre @ CHR ''#'' # d @ post \<and> length d = 6 \<and> list_all is_hex d)
          \<longleftrightarrow> (\<exists>pre d post. cs = pre @ CHR ''#'' # d @ post \<and> length d = 6 \<and> list_all is_hex d)"
      (is "?L \<longleftrightarrow> ?R")
    proof
      assume ?L
      then obtain pre d post where e: "c # cs = pre @ CHR ''#'' # d @ post"
        and d: "length d = 6" "list_all is_hex d" by blast
      show ?R
      proof (cases pre)
        case Nil
        then have "c = CHR ''#''" "cs = d @ post" using e by simp_all
        then have "c = CHR ''#'' \<and> 6 \<le> length cs \<and> list_all is_hex (take 6 cs)"
          using d by simp
        then show ?thesis using False by simp
      next
        case (Cons p pre')
        then have "cs = pre' @ CHR ''#'' # d @ post" using e by simp
        then show ?thesis using d by blast
      qed
    next
      assume ?R
      then obtain pre d post where "cs = pre @ CHR ''#'' # d @ post"
        and d: "length d = 6" "list_all is_hex d" by blast
      then have "c # cs = (c # pre) @ CHR ''#'' # d @ post" by simp
      then show ?L using d by blast
    qed
    moreover have "regex_match (c # cs) = regex_match cs"
      by (simp only: regex_match.simps False if_False)
    ultimately show ?thesis
      using Cons.IH by (simp only:)
  qed
qed

lemma fromHex_None_iff:
  "fromHex s = None \<longleftrightarrow>
   \<not> (\<exists>pre d post. s = pre @ CHR ''#'' # d @ post \<and> length d = 6 \<and> list_all is_hex d)"
proof -
  have "fromHex s = None \<longleftrightarrow> regex_match s = None"
    by (simp add: fromHex_def split: option.splits)
  then show ?thesis
    by (simp only: regex_match_None_iff)
qed

lemma fromHex_well_formed:
  assumes "length d = 6" "list_all is_hex d"
  shows "fromHex (CHR ''#'' # d)
         = Some (new_Color (parseInt16 (take 2 d)) (parseInt16 (take 2 (drop 2 d)))
                   (parseInt16 (take 2 (drop 4 d))))"
  using assms by (simp add: fromHex_def)

text \<open>
  C4. \<open>fromHex\<close> parses a \<open>#\<close> followed by six hexadecimal digits (lemma
  \<open>fromHex_well_formed\<close>), but it does not return \<open>null\<close> on every other string: the
  regular expression is not anchored, so a string of the wrong length such as
  \<open>#1234567\<close> is parsed from its first six digits. (\<open>fromHex_None_iff\<close> says when
  \<open>null\<close> is returned: when no \<open>#\<close> in the string is followed by six digits.)
\<close>

theorem fromHex_accepts_seven_digits:
  "fromHex ''#1234567'' = Some \<lparr>r = 18, g = 52, b = 86\<rparr>"
  by (simp add: fromHex_def is_hex_def parseInt16_def hexval_def new_Color_def js_rem_def)

lemma fromHex_accepts_leading_text:
  "fromHex ''zz#FfFfFf'' = Some \<lparr>r = 255, g = 255, b = 255\<rparr>"
  by (simp add: fromHex_def is_hex_def parseInt16_def hexval_def new_Color_def js_rem_def)

section \<open>Properties of the palette\<close>

lemma set_offsets: "set offsets = {0..5} \<times> {0..5} \<times> {0..5}"
  by (auto simp: offsets_def)

lemma length_offsets: "length offsets = 216"
  by (simp add: offsets_def upto.simps)

lemma distinct_offsets: "distinct offsets"
  by (simp add: offsets_def upto.simps)

lemma white_channels: "r white = 255" "g white = 255" "b white = 255"
  by (simp_all add: white_def new_Color_def js_rem_def)

lemma channel_in_byte:
  assumes "0 \<le> x" "x \<le> 5" "1 \<le> step" "step \<le> 51"
  shows "0 \<le> 255 - x * step \<and> 255 - x * step \<le> (255::int)"
proof -
  have "x * step \<le> 5 * 51" using assms by (intro mult_mono) simp_all
  moreover have "0 \<le> x * step" using assms by simp
  ultimately show ?thesis by simp
qed

lemma cloneWithDiff_white:
  assumes "(x, y, z) \<in> set offsets" "1 \<le> step" "step \<le> 51"
  shows "cloneWithDiff white x y z step
         = \<lparr>r = 255 - x * step, g = 255 - y * step, b = 255 - z * step\<rparr>"
proof -
  have "0 \<le> x" "x \<le> 5" "0 \<le> y" "y \<le> 5" "0 \<le> z" "z \<le> 5"
    using assms(1) by (simp_all add: set_offsets)
  then show ?thesis
    using channel_in_byte [of x step] channel_in_byte [of y step] channel_in_byte [of z step] assms(2,3)
    by (simp add: cloneWithDiff_def new_Color_def white_channels js_rem_byte)
qed

lemma Game_colors_eq:
  assumes "1 \<le> step" "step \<le> 51"
  shows "Game_colors step
         = map (\<lambda>(x, y, z). \<lparr>r = 255 - x * step, g = 255 - y * step, b = 255 - z * step\<rparr>) offsets"
  unfolding Game_colors_def using assms by (auto simp: cloneWithDiff_white)

lemma distinct_Game_colors:
  assumes "1 \<le> step" "step \<le> 51"
  shows "distinct (Game_colors step)"
proof -
  have "inj_on (\<lambda>(x, y, z). \<lparr>r = 255 - x * step, g = 255 - y * step, b = 255 - z * step\<rparr>)
          (set offsets)"
    using assms by (auto simp: inj_on_def)
  then show ?thesis
    using assms by (simp add: Game_colors_eq distinct_map distinct_offsets)
qed

lemma length_Game_colors: "length (Game_colors step) = 216"
  by (simp add: Game_colors_def length_offsets)

lemma set_shuffle: "random_source rnd \<Longrightarrow> set (shuffle rnd xs) = set xs"
  by (rule mset_eq_setD) (rule mset_shuffle)

lemma distinct_shuffle: "random_source rnd \<Longrightarrow> distinct (shuffle rnd xs) = distinct xs"
  by (rule mset_eq_imp_distinct_iff) (rule mset_shuffle)

lemma array_get_random:
  assumes "0 \<le> u" "u < 1" "xs \<noteq> []"
  shows "array_get xs (floor_mul u (int (length xs))) = Some (xs ! random_index u (length xs))
         \<and> random_index u (length xs) < length xs"
proof -
  have n: "0 < length xs" using assms(3) by simp
  have lt: "random_index u (length xs) < length xs"
    using assms(1,2) n by (rule random_index_less)
  have "0 \<le> floor_mul u (int (length xs))"
    using assms(1) by (simp add: floor_mul_def)
  then show ?thesis
    using lt by (simp add: array_get_def random_index_def)
qed

lemma colors_new_Game:
  "colors (new_Game num step rnd) = slice0 (shuffle rnd (Game_colors step)) num"
  by (simp add: new_Game_def Let_def)

lemma answer_new_Game:
  "answer (new_Game num step rnd)
   = array_get (colors (new_Game num step rnd))
       (floor_mul (rnd 215) (int (length (colors (new_Game num step rnd)))))"
  by (simp add: new_Game_def Let_def length_Game_colors)

lemma colors_in_range:
  assumes "1 \<le> num" "num \<le> 216"
  shows "colors (new_Game num step rnd) = take (nat num) (shuffle rnd (Game_colors step))"
    and "length (colors (new_Game num step rnd)) = nat num"
  using assms by (simp_all add: colors_new_Game slice0_def length_shuffle length_Game_colors)

lemma colors_in_lattice:
  assumes "random_source rnd" "1 \<le> num" "num \<le> 216" "1 \<le> step \<and> step \<le> 51"
    and "c \<in> set (colors (new_Game num step rnd))"
  shows "\<exists>x \<in> {0..5}. \<exists>y \<in> {0..5}. \<exists>z \<in> {0..5}.
           c = \<lparr>r = 255 - x * step, g = 255 - y * step, b = 255 - z * step\<rparr>"
proof -
  have "c \<in> set (shuffle rnd (Game_colors step))"
    using assms(5) unfolding colors_in_range(1) [OF assms(2,3)] by (rule in_set_takeD)
  then have "c \<in> set (Game_colors step)"
    using assms(1) by (simp add: set_shuffle)
  then show ?thesis
    using assms(4) by (auto simp: Game_colors_eq set_offsets)
qed

text \<open>
  C1, as amended. For every count in \<open>[1, 216]\<close>, every step and every random source,
  the constructor of \<open>Game\<close> stores exactly \<open>count\<close> colours and an answer that is one
  of them; and for a step in \<open>[1, 51]\<close> (where every channel \<open>255 - 5 * step\<close> stays
  in \<open>[0, 255]\<close>) the colours are pairwise different and each is pure white with
  \<open>x * step\<close>, \<open>y * step\<close>, \<open>z * step\<close> subtracted for some \<open>x, y, z\<close> in \<open>0..5\<close>.
\<close>

theorem palette_of_new_Game:
  assumes "random_source rnd" and "1 \<le> num" and "num \<le> 216"
  shows "int (length (colors (new_Game num step rnd))) = num
       \<and> (\<exists>a. answer (new_Game num step rnd) = Some a \<and> a \<in> set (colors (new_Game num step rnd)))
       \<and> (1 \<le> step \<and> step \<le> 51 \<longrightarrow>
            distinct (colors (new_Game num step rnd))
          \<and> (\<forall>c \<in> set (colors (new_Game num step rnd)).
                \<exists>x \<in> {0..5}. \<exists>y \<in> {0..5}. \<exists>z \<in> {0..5}.
                  c = \<lparr>r = 255 - x * step, g = 255 - y * step, b = 255 - z * step\<rparr>))"
proof (intro conjI impI)
  let ?cs = "colors (new_Game num step rnd)"
  show len: "int (length ?cs) = num"
    using assms(2,3) by (simp add: colors_in_range(2))
  have ne: "?cs \<noteq> []" using len assms(2) by auto
  have u: "0 \<le> rnd 215" "rnd 215 < 1"
    using assms(1) by (simp_all add: random_source_def)
  have "answer (new_Game num step rnd) = Some (?cs ! random_index (rnd 215) (length ?cs))
             \<and> random_index (rnd 215) (length ?cs) < length ?cs"
    unfolding answer_new_Game using u ne by (rule array_get_random)
  then show "\<exists>a. answer (new_Game num step rnd) = Some a \<and> a \<in> set ?cs"
    by simp
next
  assume step: "1 \<le> step \<and> step \<le> 51"
  have cs: "colors (new_Game num step rnd) = take (nat num) (shuffle rnd (Game_colors step))"
    using assms(2,3) by (rule colors_in_range)
  have "distinct (shuffle rnd (Game_colors step))"
    using assms(1) step by (simp add: distinct_shuffle distinct_Game_colors)
  then show "distinct (colors (new_Game num step rnd))"
    by (simp add: cs)
  show "\<forall>c \<in> set (colors (new_Game num step rnd)).
          \<exists>x \<in> {0..5}. \<exists>y \<in> {0..5}. \<exists>z \<in> {0..5}.
            c = \<lparr>r = 255 - x * step, g = 255 - y * step, b = 255 - z * step\<rparr>"
    using assms step by (blast dest: colors_in_lattice)
qed

theorem palette_of_new_Game_witness:
  "int (length (colors (new_Game 3 1 (\<lambda>k. 0)))) = 3
   \<and> distinct (colors (new_Game 3 1 (\<lambda>k. 0)))"
proof -
  have "(1::int) \<le> 3" "(3::int) \<le> 216" by simp_all
  from palette_of_new_Game [OF random_source_zero this, of 1]
  show ?thesis by simp
qed

lemma colors_all:
  "random_source rnd \<Longrightarrow> set (colors (new_Game 216 step rnd)) = set (Game_colors step)"
  by (simp add: colors_new_Game slice0_def length_shuffle length_Game_colors set_shuffle)

lemma distinct_colors_all:
  "random_source rnd \<Longrightarrow>
   distinct (colors (new_Game 216 step rnd)) = distinct (Game_colors step)"
  by (simp add: colors_new_Game slice0_def length_shuffle length_Game_colors distinct_shuffle)

text \<open>
  C1 as stated, for every positive step, fails: the constructor of \<open>Color\<close> wraps the
  channels, and with step 128 the offsets 2 and 4 give the same channel
  (\<open>-1 % 256\<close> and \<open>-257 % 256\<close> are both \<open>-1\<close>), so the full palette of 216 colours
  has duplicates.
\<close>

theorem palette_step_128_has_duplicates:
  "\<not> distinct (colors (new_Game 216 128 (\<lambda>k. 0)))"
proof -
  have "(2, 0, 0) \<in> set offsets" "(4, 0, 0) \<in> set offsets"
    by (simp_all add: set_offsets)
  moreover have "cloneWithDiff white 2 0 0 128 = cloneWithDiff white 4 0 0 128"
    by (simp add: cloneWithDiff_def new_Color_def white_channels js_rem_def)
  ultimately have "\<not> inj_on (\<lambda>(x, y, z). cloneWithDiff white x y z 128) (set offsets)"
    unfolding inj_on_def
    by (intro notI) (drule bspec [where x = "(2, 0, 0)"], assumption,
        drule bspec [where x = "(4, 0, 0)"], assumption, simp)
  then have "\<not> distinct (Game_colors 128)"
    by (simp add: Game_colors_def distinct_map)
  then show ?thesis
    by (simp add: distinct_colors_all random_source_zero)
qed

text \<open>
  C8. The round trip holds for the palettes of steps 1 to 51 (lemma
  \<open>roundtrip_on_palette\<close> below), but not for every palette: with step 52 the palette
  of 216 colours holds the colour with red channel \<open>255 - 5 * 52 = -5\<close>, which
  \<open>toString\<close> writes as \<open>#-5ffff\<close> (\<open>paddedHex\<close> keeps the sign of \<open>-5 % 0x100\<close>), and
  \<open>fromHex\<close> returns \<open>null\<close> on that string.
\<close>

theorem palette_step_52_hex_not_parsed:
  "\<lparr>r = - 5, g = 255, b = 255\<rparr> \<in> set (colors (new_Game 216 52 (\<lambda>k. 0)))
   \<and> toString \<lparr>r = - 5, g = 255, b = 255\<rparr> = ''#-5ffff''
   \<and> fromHex (toString \<lparr>r = - 5, g = 255, b = 255\<rparr>) = None"
proof -
  have "(5, 0, 0) \<in> set offsets" by (simp add: set_offsets)
  moreover have "cloneWithDiff white 5 0 0 52 = \<lparr>r = - 5, g = 255, b = 255\<rparr>"
    by (simp add: cloneWithDiff_def new_Color_def white_channels js_rem_def)
  ultimately have "\<lparr>r = - 5, g = 255, b = 255\<rparr> \<in> set (Game_colors 52)"
    by (force simp: Game_colors_def)
  moreover have s: "toString \<lparr>r = - 5, g = 255, b = 255\<rparr> = ''#-5ffff''"
    by (simp add: toString_def paddedHex_def js_rem_def toString16_def padStart_def digit16_def)
  moreover have "fromHex ''#-5ffff'' = None"
    by (simp add: fromHex_def is_hex_def)
  ultimately show ?thesis
    by (simp add: colors_all random_source_zero)
qed

lemma roundtrip_on_palette:
  assumes "random_source rnd" "1 \<le> num" "num \<le> 216" "1 \<le> step" "step \<le> 51"
    and "c \<in> set (colors (new_Game num step rnd))"
  shows "fromHex (toString c) = Some c"
proof -
  from colors_in_lattice [OF assms(1-3) conjI [OF assms(4,5)] assms(6)]
  obtain x y z where xyz: "x \<in> {0..5}" "y \<in> {0..5}" "z \<in> {0..5}"
    and c: "c = \<lparr>r = 255 - x * step, g = 255 - y * step, b = 255 - z * step\<rparr>"
    by blast
  show ?thesis
    using xyz assms(4,5) channel_in_byte [of x step] channel_in_byte [of y step]
      channel_in_byte [of z step]
    by (intro fromHex_toString) (simp_all add: c)
qed

text \<open>
  The file with the \<open>state\<close> object builds its list with \<open>withDiff\<close>, which adds the
  offsets and does not use the step: its list holds \<open>(0, 255, 255)\<close>, white with 1 added
  to the red channel and wrapped, which is no colour of the palette of step 1.
\<close>

lemma make_problem_list_adds:
  "\<lparr>r = 0, g = 255, b = 255\<rparr> \<in> set make_problem_list
   \<and> \<lparr>r = 0, g = 255, b = 255\<rparr> \<notin> set (Game_colors 1)"
proof
  have "(1, 0, 0) \<in> set offsets" by (simp add: set_offsets)
  moreover have "withDiff white 1 0 0 = \<lparr>r = 0, g = 255, b = 255\<rparr>"
    by (simp add: withDiff_def new_Color_def white_channels js_rem_def)
  ultimately show "\<lparr>r = 0, g = 255, b = 255\<rparr> \<in> set make_problem_list"
    by (force simp: make_problem_list_def)
  show "\<lparr>r = 0, g = 255, b = 255\<rparr> \<notin> set (Game_colors 1)"
    by (auto simp: Game_colors_eq set_offsets)
qed

text \<open>
  The files on global variables keep the channels as they are computed, without a
  remainder: their 216 colours are pairwise different for every step but 0.
\<close>

lemma distinct_lattice: "dif \<noteq> 0 \<Longrightarrow> distinct (lattice dif)"
proof -
  assume "dif \<noteq> 0"
  then have "inj_on (\<lambda>(x, y, z). (255 - x * dif, 255 - y * dif, 255 - z * dif)) (set offsets)"
    by (auto simp: inj_on_def)
  then show ?thesis
    by (simp add: lattice_def distinct_map distinct_offsets)
qed

text \<open>
  C7. For every channel value that is not negative, the constructor stores the value
  reduced modulo 256, a number in \<open>[0, 255]\<close>: it wraps and does not clamp (260 is
  stored as 4, see the witness). Negative values are outside the claim; the lemma after
  the witness records that \<open>-1\<close> is stored as \<open>-1\<close>.
\<close>

theorem Color_constructor_wraps:
  "(0 \<le> x \<longrightarrow> r (new_Color x y z) = x mod 256)
   \<and> (0 \<le> y \<longrightarrow> g (new_Color x y z) = y mod 256)
   \<and> (0 \<le> z \<longrightarrow> b (new_Color x y z) = z mod 256)"
  by (simp add: new_Color_def js_rem_nonneg)

theorem Color_constructor_wraps_witness:
  "r (new_Color 260 0 255) = 4 \<and> g (new_Color 260 0 255) = 0 \<and> b (new_Color 260 0 255) = 255"
  using Color_constructor_wraps [of 260 0 255] by simp

lemma Color_constructor_negative: "r (new_Color (- 1) 0 0) = - 1"
  by (simp add: new_Color_def js_rem_def)

section \<open>Properties of the two engines\<close>

lemma digit16_inj: "d < 16 \<Longrightarrow> e < 16 \<Longrightarrow> digit16 d = digit16 e \<Longrightarrow> d = e"
proof -
  assume d: "d < 16" and e: "e < 16" and eq: "digit16 d = digit16 e"
  have "int d = hexval (digit16 d)" using d by (simp only: hexval_digit16)
  also have "\<dots> = hexval (digit16 e)" by (simp only: eq)
  also have "\<dots> = int e" using e by (simp only: hexval_digit16)
  finally show "d = e" by simp
qed

lemma ColorToHex_byte:
  assumes "0 \<le> n" "n \<le> 255"
  shows "ColorToHex n = [digit16 (nat n div 16), digit16 (nat n mod 16)]"
proof -
  have "nat n < 256" using assms by simp
  then show ?thesis
    using assms by (simp add: ColorToHex_def toString16_def toString16_nat_byte digit16_0 Let_def)
qed

lemma ColorToHex_inj:
  assumes "0 \<le> n" "n \<le> 255" "0 \<le> m" "m \<le> 255" "ColorToHex n = ColorToHex m"
  shows "n = m"
proof -
  have "nat n div 16 < 16" "nat n mod 16 < 16" "nat m div 16 < 16" "nat m mod 16 < 16"
    using assms by simp_all
  then have "nat n div 16 = nat m div 16" "nat n mod 16 = nat m mod 16"
    using assms by (simp_all add: ColorToHex_byte digit16_inj)
  then have "nat n = nat m"
    by (metis div_mult_mod_eq)
  then show ?thesis using assms by simp
qed

lemma ConvertRGBtoHex_inj:
  assumes "{x, y, z, x', y', z'} \<subseteq> {0..255}"
    and "ConvertRGBtoHex (x, y, z) = ConvertRGBtoHex (x', y', z')"
  shows "(x, y, z) = (x', y', z')"
proof -
  have b: "0 \<le> x" "x \<le> 255" "0 \<le> y" "y \<le> 255" "0 \<le> z" "z \<le> 255"
    "0 \<le> x'" "x' \<le> 255" "0 \<le> y'" "y' \<le> 255" "0 \<le> z'" "z' \<le> 255"
    using assms(1) by simp_all
  have "ColorToHex x = ColorToHex x' \<and> ColorToHex y = ColorToHex y' \<and> ColorToHex z = ColorToHex z'"
    using assms(2) b by (simp add: ConvertRGBtoHex_def ColorToHex_byte)
  then show ?thesis
    using b by (simp add: ColorToHex_inj)
qed

lemma toString16_nat_nonempty: "toString16_nat n \<noteq> []"
  by (subst toString16_nat.simps) simp

lemma length_toString16_nat_big: "256 \<le> n \<Longrightarrow> 3 \<le> length (toString16_nat n)"
proof -
  assume n: "256 \<le> n"
  then have "16 \<le> n div 16" by simp
  then have "toString16_nat (n div 16)
             = toString16_nat (n div 16 div 16) @ [digit16 (n div 16 mod 16)]"
    by (subst toString16_nat.simps) simp
  moreover have "1 \<le> length (toString16_nat (n div 16 div 16))"
    using toString16_nat_nonempty [of "n div 16 div 16"] by (simp add: Suc_le_eq)
  moreover have "toString16_nat n = toString16_nat (n div 16) @ [digit16 (n mod 16)]"
    using n by (subst toString16_nat.simps) simp
  ultimately show ?thesis by simp
qed

lemma ColorToHex_negative: "n < 0 \<Longrightarrow> CHR ''-'' \<in> set (ColorToHex n)"
  by (simp add: ColorToHex_def toString16_def Let_def)

lemma length_ColorToHex_nonneg: "0 \<le> n \<Longrightarrow> 2 \<le> length (ColorToHex n)"
proof -
  assume n: "0 \<le> n"
  define h where "h = toString16_nat (nat n)"
  have "h \<noteq> []" unfolding h_def by (rule toString16_nat_nonempty)
  then have "1 \<le> length h" by (simp add: Suc_le_eq)
  then have "2 \<le> length (if length h = 1 then CHR ''0'' # h else h)"
    by (cases "length h = 1") simp_all
  moreover have "ColorToHex n = (if length h = 1 then CHR ''0'' # h else h)"
    using n by (simp add: ColorToHex_def toString16_def Let_def h_def del: toString16_nat.simps)
  ultimately show ?thesis by (simp only:)
qed

lemma length_ColorToHex_big: "256 \<le> n \<Longrightarrow> 3 \<le> length (ColorToHex n)"
  using length_toString16_nat_big [of "nat n"]
  by (auto simp: ColorToHex_def toString16_def Let_def)

lemma digit16_not_minus: "d < 16 \<Longrightarrow> digit16 d \<noteq> CHR ''-''"
  by (drule digit16_cases) (auto simp: digit16_def)

lemma ConvertRGBtoHex_byte:
  assumes "{x, y, z} \<subseteq> {0..255}"
  shows "length (ConvertRGBtoHex (x, y, z)) = 6" and "CHR ''-'' \<notin> set (ConvertRGBtoHex (x, y, z))"
proof -
  have b: "0 \<le> x" "x \<le> 255" "0 \<le> y" "y \<le> 255" "0 \<le> z" "z \<le> 255"
    using assms by simp_all
  show "length (ConvertRGBtoHex (x, y, z)) = 6"
    using b by (simp add: ConvertRGBtoHex_def ColorToHex_byte)
  have "nat x div 16 < 16" "nat x mod 16 < 16" "nat y div 16 < 16" "nat y mod 16 < 16"
    "nat z div 16 < 16" "nat z mod 16 < 16"
    using b by simp_all
  then have "digit16 (nat x div 16) \<noteq> CHR ''-''" "digit16 (nat x mod 16) \<noteq> CHR ''-''"
    "digit16 (nat y div 16) \<noteq> CHR ''-''" "digit16 (nat y mod 16) \<noteq> CHR ''-''"
    "digit16 (nat z div 16) \<noteq> CHR ''-''" "digit16 (nat z mod 16) \<noteq> CHR ''-''"
    by (simp_all only: digit16_not_minus not_False_eq_True)
  then show "CHR ''-'' \<notin> set (ConvertRGBtoHex (x, y, z))"
    using b by (auto simp: ConvertRGBtoHex_def ColorToHex_byte)
qed

lemma ConvertRGBtoHex_byte_answer:
  assumes "{x, y, z} \<subseteq> {0..255}"
    and "ConvertRGBtoHex (x, y, z) = ConvertRGBtoHex (a0, a1, a2)"
  shows "{a0, a1, a2} \<subseteq> {0..255}"
proof -
  have len: "length (ConvertRGBtoHex (a0, a1, a2)) = 6"
    and nm: "CHR ''-'' \<notin> set (ConvertRGBtoHex (a0, a1, a2))"
    using ConvertRGBtoHex_byte [OF assms(1)] assms(2) by simp_all
  have neg: "\<not> n < 0" if "CHR ''-'' \<notin> set (ColorToHex n)" for n
    using that ColorToHex_negative [of n] by blast
  have "CHR ''-'' \<notin> set (ColorToHex a0)" "CHR ''-'' \<notin> set (ColorToHex a1)"
    "CHR ''-'' \<notin> set (ColorToHex a2)"
    using nm by (simp_all add: ConvertRGBtoHex_def)
  then have nn: "0 \<le> a0" "0 \<le> a1" "0 \<le> a2"
    using neg [of a0] neg [of a1] neg [of a2] by simp_all
  have l: "length (ColorToHex a0) + length (ColorToHex a1) + length (ColorToHex a2) = 6"
    using len by (simp add: ConvertRGBtoHex_def)
  have "a0 \<le> 255"
    using l length_ColorToHex_big [of a0] length_ColorToHex_nonneg [OF nn(2)]
      length_ColorToHex_nonneg [OF nn(3)] by (cases "256 \<le> a0") auto
  moreover have "a1 \<le> 255"
    using l length_ColorToHex_big [of a1] length_ColorToHex_nonneg [OF nn(1)]
      length_ColorToHex_nonneg [OF nn(3)] by (cases "256 \<le> a1") auto
  moreover have "a2 \<le> 255"
    using l length_ColorToHex_big [of a2] length_ColorToHex_nonneg [OF nn(1)]
      length_ColorToHex_nonneg [OF nn(2)] by (cases "256 \<le> a2") auto
  ultimately show ?thesis using nn by simp
qed

lemma ConvertRGBtoHex_inj_byte:
  assumes "{x, y, z} \<subseteq> {0..255}"
    and "ConvertRGBtoHex (x, y, z) = ConvertRGBtoHex (a0, a1, a2)"
  shows "(x, y, z) = (a0, a1, a2)"
proof -
  have "{a0, a1, a2} \<subseteq> {0..255}"
    using assms by (rule ConvertRGBtoHex_byte_answer)
  then have "{x, y, z, a0, a1, a2} \<subseteq> {0..255}" using assms(1) by simp
  then show ?thesis using assms(2) by (rule ConvertRGBtoHex_inj)
qed

lemma submit_miss_hex:
  assumes "enable_submit s" and "ConvertRGBtoHex (x, y, z) \<noteq> ac_color_hex s"
    and "ac_color s = (a0, a1, a2)" and "ConvertRGBtoHex (x, y, z) \<in> set (palette s)"
  shows "submit s (x, y, z) now =
     Inr (Miss (ConvertRGBtoHex (x, y, z))
            (real_of_int ((a0 - x)\<^sup>2 + (a1 - y)\<^sup>2 + (a2 - z)\<^sup>2) / (real_of_int (color_step s))\<^sup>2)
            (case miss_cnt s (ConvertRGBtoHex (x, y, z)) of None \<Rightarrow> None | Some m \<Rightarrow> Some (m + 1)),
          s\<lparr>try_num := try_num s + 1,
            miss_cnt := (miss_cnt s)(ConvertRGBtoHex (x, y, z) \<mapsto>
                          (case miss_cnt s (ConvertRGBtoHex (x, y, z)) of None \<Rightarrow> 1 | Some m \<Rightarrow> m + 1)),
            score_num := score_num s
              - real_of_int ((a0 - x)\<^sup>2 + (a1 - y)\<^sup>2 + (a2 - z)\<^sup>2) / (real_of_int (color_step s))\<^sup>2\<rparr>)"
  using assms by (simp add: submit_def Let_def split: option.splits)

lemma submit_again_miss:
  assumes "enable_submit s" and "ConvertRGBtoHex (x, y, z) \<noteq> ac_color_hex s"
    and "ac_color s = (a0, a1, a2)" and "ConvertRGBtoHex (x, y, z) \<in> set (palette s)"
  shows "\<exists>s'. submit_again s (x, y, z) ts = Inr s'
     \<and> score_num s' = score_num s - real (length ts)
          * (real_of_int ((a0 - x)\<^sup>2 + (a1 - y)\<^sup>2 + (a2 - z)\<^sup>2) / (real_of_int (color_step s))\<^sup>2)
     \<and> miss_cnt s' (ConvertRGBtoHex (x, y, z)) =
          (if ts = [] then miss_cnt s (ConvertRGBtoHex (x, y, z))
           else Some ((case miss_cnt s (ConvertRGBtoHex (x, y, z)) of None \<Rightarrow> 0 | Some m \<Rightarrow> m)
                      + length ts))
     \<and> try_num s' = try_num s + length ts
     \<and> enable_submit s' \<and> ac_color s' = ac_color s \<and> ac_color_hex s' = ac_color_hex s
     \<and> color_step s' = color_step s \<and> palette s' = palette s"
  using assms
proof (induction ts arbitrary: s)
  case Nil
  then show ?case by simp
next
  case (Cons now ts)
  let ?hex = "ConvertRGBtoHex (x, y, z)"
  define p where
    "p = real_of_int ((a0 - x)\<^sup>2 + (a1 - y)\<^sup>2 + (a2 - z)\<^sup>2) / (real_of_int (color_step s))\<^sup>2"
  define s1 where "s1 = s\<lparr>try_num := try_num s + 1,
            miss_cnt := (miss_cnt s)(?hex \<mapsto> (case miss_cnt s ?hex of None \<Rightarrow> 1 | Some m \<Rightarrow> m + 1)),
            score_num := score_num s - p\<rparr>"
  have step: "submit_again s (x, y, z) (now # ts) = submit_again s1 (x, y, z) ts"
    using submit_miss_hex [OF Cons.prems, of now] by (simp add: s1_def p_def)
  have s1: "enable_submit s1" "ConvertRGBtoHex (x, y, z) \<noteq> ac_color_hex s1"
    "ac_color s1 = (a0, a1, a2)" "ConvertRGBtoHex (x, y, z) \<in> set (palette s1)"
    using Cons.prems by (simp_all add: s1_def)
  obtain s' where s': "submit_again s1 (x, y, z) ts = Inr s'"
     "score_num s' = score_num s1 - real (length ts) * p"
     "miss_cnt s' ?hex =
          (if ts = [] then miss_cnt s1 ?hex
           else Some ((case miss_cnt s1 ?hex of None \<Rightarrow> 0 | Some m \<Rightarrow> m) + length ts))"
     "try_num s' = try_num s1 + length ts"
     "enable_submit s'" "ac_color s' = ac_color s1" "ac_color_hex s' = ac_color_hex s1"
     "color_step s' = color_step s1" "palette s' = palette s1"
    using Cons.IH [OF s1] unfolding p_def by (auto simp: s1_def)
  have "score_num s' = score_num s - real (length (now # ts)) * p"
    using s'(2) by (simp add: s1_def algebra_simps)
  moreover have "miss_cnt s' ?hex =
      Some ((case miss_cnt s ?hex of None \<Rightarrow> 0 | Some m \<Rightarrow> m) + length (now # ts))"
    using s'(3) by (simp add: s1_def split: option.splits)
  moreover have "try_num s' = try_num s + length (now # ts)"
    using s'(4) by (simp add: s1_def)
  moreover have "enable_submit s'" "ac_color s' = ac_color s" "ac_color_hex s' = ac_color_hex s"
    "color_step s' = color_step s" "palette s' = palette s"
    using s'(5-9) by (simp_all add: s1_def)
  ultimately show ?case
    using s'(1) step unfolding p_def by simp
qed

lemma submit_hit:
  assumes "enable_submit s" and "ConvertRGBtoHex col = ac_color_hex s"
    and "start_time s = Some t0"
  shows "submit s col now =
     Inr (Hit (Some (now - t0))
            (classify (color_step s) (try_num s + 1) (Some (now - t0)))
            (if color_step s = 1 then average5 (tl (score_history5 s) @ [Score (score_num s)])
             else Placeholder,
             classify (color_step s) (try_num s + 1) (Some (now - t0)))
            (if color_step s = 1
             then Some (average5 (tl (score_history5 s) @ [Score (score_num s)]),
                        tl (score_history5 s) @ [Score (score_num s)])
             else None),
          s\<lparr>try_num := try_num s + 1, enable_submit := False,
            score_history5 := (if color_step s = 1
                               then tl (score_history5 s) @ [Score (score_num s)]
                               else score_history5 s)\<rparr>)"
  using assms by (simp add: submit_def update_timer_def Let_def)

lemma submit_ignored: "\<not> enable_submit s \<Longrightarrow> submit s col now = Inr (Ignored, s)"
  by (simp add: submit_def)

lemma ave_loop_scores: "ave_loop (map Score vs) acc = Score (acc + sum_list vs)"
  by (induction vs arbitrary: acc) (simp_all add: algebra_simps)

lemma ave_loop_placeholder: "Placeholder \<in> set h \<Longrightarrow> ave_loop h acc = Placeholder"
  by (induction h acc rule: ave_loop.induct) auto

lemma average5_scores: "average5 (map Score vs) = Score (sum_list vs / 5)"
  by (simp add: average5_def ave_loop_scores)

lemma average5_placeholder: "Placeholder \<in> set h \<Longrightarrow> average5 h = Placeholder"
  by (simp add: average5_def ave_loop_placeholder)

lemma length_lattice: "length (lattice dif) = 216"
  by (simp add: lattice_def length_offsets)

lemma floor_mul_bounds:
  assumes "0 \<le> u" "u < 1"
  shows "0 < n \<Longrightarrow> 0 \<le> floor_mul u n \<and> floor_mul u n < n"
    and "n \<le> 0 \<Longrightarrow> floor_mul u n \<le> 0"
proof -
  show "0 \<le> floor_mul u n \<and> floor_mul u n < n" if "0 < n"
  proof -
    have "u * of_int n < of_int n" using assms that by simp
    then have "\<lfloor>u * of_int n\<rfloor> < n" by (simp add: floor_less_iff)
    moreover have "0 \<le> u * of_int n" using assms that by simp
    ultimately show ?thesis by (simp add: floor_mul_def)
  qed
  show "floor_mul u n \<le> 0" if "n \<le> 0"
  proof -
    have "u * of_int n \<le> 0" using assms that by (simp add: mult_nonneg_nonpos)
    then show ?thesis by (simp add: floor_mul_def floor_le_iff)
  qed
qed

lemma make_problem_fails_iff:
  assumes "random_source rnd"
  shows "isl (make_problem s num dif rnd now) \<longleftrightarrow> 216 < num \<or> floor_mul (rnd 215) num < 0"
proof (cases "216 < num")
  case True
  then show ?thesis by (simp add: make_problem_def length_shuffle length_lattice)
next
  case False
  have u: "0 \<le> rnd 215" "rnd 215 < 1" using assms by (simp_all add: random_source_def)
  have "floor_mul (rnd 215) num < 216"
    using floor_mul_bounds [OF u, of num] False by (cases "0 < num") auto
  then have "array_get (shuffle rnd (lattice dif)) (floor_mul (rnd 215) num) = None
             \<longleftrightarrow> floor_mul (rnd 215) num < 0"
    by (auto simp: array_get_def length_shuffle length_lattice)
  then show ?thesis
    using False
    by (auto simp: make_problem_def length_shuffle length_lattice Let_def split: option.splits)
qed

lemma length_colors_new_Game:
  "length (colors (new_Game num dif rnd))
   = (if 0 \<le> num then min (nat num) 216 else nat (216 + num))"
  by (auto simp: colors_new_Game slice0_def length_shuffle length_Game_colors)

lemma answer_None_iff:
  assumes "random_source rnd"
  shows "answer (new_Game num dif rnd) = None \<longleftrightarrow> colors (new_Game num dif rnd) = []"
proof (cases "colors (new_Game num dif rnd) = []")
  case True
  then show ?thesis by (simp add: answer_new_Game array_get_def)
next
  case False
  have u: "0 \<le> rnd 215" "rnd 215 < 1" using assms by (simp_all add: random_source_def)
  show ?thesis
    unfolding answer_new_Game using array_get_random [OF u False] False by simp
qed

lemma start_fails_iff:
  assumes "random_source rnd"
  shows "isl (start num dif rnd now) \<longleftrightarrow> num = 0 \<or> num \<le> - 216"
proof -
  have "isl (start num dif rnd now) \<longleftrightarrow> answer (new_Game num dif rnd) = None"
    by (simp add: start_def Game_start_def split: option.splits)
  also have "\<dots> \<longleftrightarrow> length (colors (new_Game num dif rnd)) = 0"
    using assms by (simp add: answer_None_iff)
  also have "\<dots> \<longleftrightarrow> num = 0 \<or> num \<le> - 216"
    unfolding length_colors_new_Game by auto
  finally show ?thesis .
qed

lemma all_same_replicate: "\<forall>x \<in> set xs. x = w \<Longrightarrow> xs = replicate (length xs) w"
  by (simp add: replicate_length_same)

lemma set_lattice_0: "set (lattice 0) = {(255, 255, 255)}"
proof -
  have "(0, 0, 0) \<in> set offsets" by (simp add: set_offsets)
  then have "(255, 255, 255) \<in> set (lattice 0)" by (force simp: lattice_def)
  moreover have "set (lattice 0) \<subseteq> {(255, 255, 255)}" by (auto simp: lattice_def)
  ultimately show ?thesis by blast
qed

lemma white_eq: "white = \<lparr>r = 255, g = 255, b = 255\<rparr>"
  by (simp add: white_def new_Color_def js_rem_def)

lemma set_Game_colors_0: "set (Game_colors 0) = {white}"
proof -
  have w: "cloneWithDiff white x y z 0 = white" for x y z
    by (simp add: cloneWithDiff_def new_Color_def white_channels js_rem_def white_eq)
  have "(0, 0, 0) \<in> set offsets" by (simp add: set_offsets)
  then have "cloneWithDiff white 0 0 0 0 \<in> set (Game_colors 0)"
    by (force simp: Game_colors_def)
  moreover have "set (Game_colors 0) \<subseteq> {white}" by (auto simp: Game_colors_def w)
  ultimately show ?thesis by (auto simp: w)
qed

lemma ConvertRGBtoHex_white: "ConvertRGBtoHex (255, 255, 255) = ''ffffff''"
  by (simp add: ConvertRGBtoHex_def ColorToHex_byte digit16_def)

lemma ConvertRGBtoHex_252: "ConvertRGBtoHex (252, 252, 252) = ''fcfcfc''"
  by (simp add: ConvertRGBtoHex_def ColorToHex_byte digit16_def)

lemma make_problem_arms:
  "make_problem s num dif rnd now = Inr s1 \<Longrightarrow>
   enable_submit s1 \<and> try_num s1 = 0 \<and> score_num s1 = (if dif = 1 then 1000 else 100)
   \<and> miss_cnt s1 = Map.empty \<and> start_time s1 = Some now \<and> color_step s1 = dif
   \<and> ac_color_hex s1 = ConvertRGBtoHex (ac_color s1)
   \<and> score_history5 s1 = score_history5 s"
  by (auto simp: make_problem_def Let_def split: if_splits option.splits)

text \<open>
  A round that \<open>make_problem\<close> starts with a count in \<open>[1, 216]\<close> shows that many
  swatches, and the answer is one of them.
\<close>

lemma make_problem_answer_in_palette:
  assumes "random_source rnd" "1 \<le> num" "num \<le> 216"
    and "make_problem s num dif rnd now = Inr s1"
  shows "ac_color_hex s1 \<in> set (palette s1) \<and> int (length (palette s1)) = num"
proof -
  let ?l = "shuffle rnd (lattice dif)"
  let ?i = "floor_mul (rnd 215) num"
  have u: "0 \<le> rnd 215" "rnd 215 < 1" using assms(1) by (simp_all add: random_source_def)
  have i: "0 \<le> ?i \<and> ?i < num"
    using floor_mul_bounds(1) [OF u, of num] assms(2) by simp
  then have n: "nat ?i < nat num" by simp
  have len: "length ?l = 216" by (simp add: length_shuffle length_lattice)
  have get: "array_get ?l ?i = Some (?l ! nat ?i)"
    using i assms(3) by (simp add: array_get_def len)
  have "?l ! nat ?i = take (nat num) ?l ! nat ?i" using n by simp
  moreover have "nat ?i < length (take (nat num) ?l)" using n assms(3) by (simp add: len)
  ultimately have "?l ! nat ?i \<in> set (take (nat num) ?l)"
    by (metis nth_mem)
  moreover have "s1 = s\<lparr>color_step := dif,
                    palette := map ConvertRGBtoHex (take (nat num) ?l),
                    ac_color := ?l ! nat ?i, ac_color_hex := ConvertRGBtoHex (?l ! nat ?i),
                    miss_cnt := Map.empty,
                    score_num := (if dif = 1 then 1000 else 100), try_num := 0,
                    start_time := Some now, enable_submit := True\<rparr>"
    using assms(3,4) by (simp add: make_problem_def len length_lattice get Let_def)
  ultimately show ?thesis
    using assms(2,3) by (simp add: len)
qed

lemma onTry_not_started: "startTime gm = None \<Longrightarrow> onTry gm hex now = Inr (None, gm, None)"
  by (simp add: onTry_def)

lemma onTry_success:
  assumes "startTime gm = Some t0" and "fromHex hex = Some color" and "answer gm = Some a"
    and "eq_color a (Some color)"
  shows "onTry gm hex now =
     Inr (Some True, gm\<lparr>tryCount := tryCount gm + 1\<rparr>,
          Some (ShowSuccess (now - t0)
                 (if colorStep gm \<noteq> 1 then TutorialDone
                  else if tryCount gm + 1 = 1 then FirstTry
                  else if now - t0 \<le> 10000 then FastSolve
                  else NoComment)))"
  using assms by (simp add: onTry_def onSuccess_def Let_def)

lemma onTry_failure:
  assumes "startTime gm = Some t0" and "fromHex hex = Some color" and "answer gm = Some a"
    and "\<not> eq_color a (Some color)"
  shows "onTry gm hex now =
     Inr (Some False,
          gm\<lparr>tryCount := tryCount gm + 1,
             score := score gm - real_of_int (diff color (Some a)) / (real_of_int (colorStep gm))\<^sup>2\<rparr>,
          Some (ShowFailure (toString color)
                 (real_of_int (diff color (Some a)) / (real_of_int (colorStep gm))\<^sup>2)))"
  using assms by (simp add: onTry_def onFailure_def Let_def)

lemma fromHex_ffffff: "fromHex ''#ffffff'' = Some white"
  by (simp add: fromHex_def is_hex_def parseInt16_def hexval_def new_Color_def js_rem_def white_eq)

section \<open>The claims about the two engines\<close>

lemma fromHex_fcfcfc: "fromHex ''#fcfcfc'' = Some \<lparr>r = 252, g = 252, b = 252\<rparr>"
  by (simp add: fromHex_def is_hex_def parseInt16_def hexval_def new_Color_def js_rem_def)

lemma toString_fcfcfc: "toString \<lparr>r = 252, g = 252, b = 252\<rparr> = ''#fcfcfc''"
  by (simp add: toString_def paddedHex_byte digit16_def)

text \<open>
  C2. In an armed round with a positive step, a submitted colour, one of the swatches
  on the page, with channels in \<open>[0, 255]\<close>, that differs from the answer (whose hex code
  the globals hold) is a miss: \<open>submit\<close> subtracts the squared distance divided by
  \<open>step\<^sup>2\<close> from the score and sets the counter of that hex code to 1 if it had none,
  to one more otherwise. Clicking the same wrong colour \<open>n\<close> times
  subtracts \<open>n\<close> penalties and adds \<open>n\<close> to the counter. The class-based file, which
  keeps no counters, subtracts the same penalty in \<open>onTry\<close>.
\<close>

theorem miss_subtracts_penalty_and_counts:
  assumes "enable_submit s" and "0 < color_step s"
    and "ac_color s = (a0, a1, a2)" and "ac_color_hex s = ConvertRGBtoHex (ac_color s)"
    and "{x, y, z} \<subseteq> {0..255}" and "(x, y, z) \<noteq> (a0, a1, a2)"
    and "ConvertRGBtoHex (x, y, z) \<in> set (palette s)"
  shows "submit s (x, y, z) now =
     Inr (Miss (ConvertRGBtoHex (x, y, z))
            (real_of_int ((a0 - x)\<^sup>2 + (a1 - y)\<^sup>2 + (a2 - z)\<^sup>2) / (real_of_int (color_step s))\<^sup>2)
            (case miss_cnt s (ConvertRGBtoHex (x, y, z)) of None \<Rightarrow> None | Some m \<Rightarrow> Some (m + 1)),
          s\<lparr>try_num := try_num s + 1,
            miss_cnt := (miss_cnt s)(ConvertRGBtoHex (x, y, z) \<mapsto>
                          (case miss_cnt s (ConvertRGBtoHex (x, y, z)) of None \<Rightarrow> 1 | Some m \<Rightarrow> m + 1)),
            score_num := score_num s
              - real_of_int ((a0 - x)\<^sup>2 + (a1 - y)\<^sup>2 + (a2 - z)\<^sup>2) / (real_of_int (color_step s))\<^sup>2\<rparr>)
   \<and> (\<exists>s'. submit_again s (x, y, z) ts = Inr s'
        \<and> score_num s' = score_num s - real (length ts)
             * (real_of_int ((a0 - x)\<^sup>2 + (a1 - y)\<^sup>2 + (a2 - z)\<^sup>2) / (real_of_int (color_step s))\<^sup>2)
        \<and> miss_cnt s' (ConvertRGBtoHex (x, y, z)) =
             (if ts = [] then miss_cnt s (ConvertRGBtoHex (x, y, z))
              else Some ((case miss_cnt s (ConvertRGBtoHex (x, y, z)) of None \<Rightarrow> 0 | Some m \<Rightarrow> m)
                         + length ts)))
   \<and> (startTime gm = Some t1 \<and> fromHex hex = Some color \<and> answer gm = Some a
        \<and> \<not> eq_color a (Some color) \<and> 0 < colorStep gm \<longrightarrow>
        onTry gm hex now =
          Inr (Some False,
               gm\<lparr>tryCount := tryCount gm + 1,
                  score := score gm
                    - real_of_int ((r color - r a)\<^sup>2 + (g color - g a)\<^sup>2 + (b color - b a)\<^sup>2)
                      / (real_of_int (colorStep gm))\<^sup>2\<rparr>,
               Some (ShowFailure (toString color)
                      (real_of_int ((r color - r a)\<^sup>2 + (g color - g a)\<^sup>2 + (b color - b a)\<^sup>2)
                       / (real_of_int (colorStep gm))\<^sup>2))))"
proof -
  have "ConvertRGBtoHex (x, y, z) \<noteq> ConvertRGBtoHex (a0, a1, a2)"
  proof
    assume "ConvertRGBtoHex (x, y, z) = ConvertRGBtoHex (a0, a1, a2)"
    with assms(5) have "(x, y, z) = (a0, a1, a2)" by (rule ConvertRGBtoHex_inj_byte)
    then show False using assms(6) by simp
  qed
  then have ne: "ConvertRGBtoHex (x, y, z) \<noteq> ac_color_hex s"
    by (simp add: assms(3,4))
  have "onTry gm hex now =
          Inr (Some False,
               gm\<lparr>tryCount := tryCount gm + 1,
                  score := score gm
                    - real_of_int ((r color - r a)\<^sup>2 + (g color - g a)\<^sup>2 + (b color - b a)\<^sup>2)
                      / (real_of_int (colorStep gm))\<^sup>2\<rparr>,
               Some (ShowFailure (toString color)
                      (real_of_int ((r color - r a)\<^sup>2 + (g color - g a)\<^sup>2 + (b color - b a)\<^sup>2)
                       / (real_of_int (colorStep gm))\<^sup>2)))"
    if "startTime gm = Some t1 \<and> fromHex hex = Some color \<and> answer gm = Some a
        \<and> \<not> eq_color a (Some color) \<and> 0 < colorStep gm"
    using that onTry_failure [of gm t1 hex color a now] by (simp add: diff_def)
  then show ?thesis
    using submit_miss_hex [OF assms(1) ne assms(3,7), of now]
      submit_again_miss [OF assms(1) ne assms(3,7), of ts]
    by blast
qed

theorem miss_subtracts_penalty_and_counts_witness:
  "submit (initial\<lparr>ac_color := (255, 255, 255), ac_color_hex := ''ffffff'', color_step := 1,
                   start_time := Some 0, score_num := 1000, enable_submit := True,
                   palette := [''fcfcfc'', ''ffffff'']\<rparr>)
     (252, 252, 252) 700
   = Inr (Miss ''fcfcfc'' 27 None,
          initial\<lparr>ac_color := (255, 255, 255), ac_color_hex := ''ffffff'', color_step := 1,
                  start_time := Some 0, score_num := 973, enable_submit := True,
                  try_num := 1, miss_cnt := [''fcfcfc'' \<mapsto> 1],
                  palette := [''fcfcfc'', ''ffffff'']\<rparr>)
   \<and> (\<exists>s'. submit_again (initial\<lparr>ac_color := (255, 255, 255), ac_color_hex := ''ffffff'',
                    color_step := 1, start_time := Some 0, score_num := 1000,
                    enable_submit := True, palette := [''fcfcfc'', ''ffffff'']\<rparr>)
               (252, 252, 252) [700, 900] = Inr s'
          \<and> score_num s' = 946 \<and> miss_cnt s' ''fcfcfc'' = Some 2)
   \<and> onTry \<lparr>score = 1000, tryCount = 0, startTime = Some 0, colorStep = 1,
             colors = [white], answer = Some white\<rparr> ''#fcfcfc'' 700
      = Inr (Some False,
             \<lparr>score = 973, tryCount = 1, startTime = Some 0, colorStep = 1,
              colors = [white], answer = Some white\<rparr>,
             Some (ShowFailure ''#fcfcfc'' 27))"
  using miss_subtracts_penalty_and_counts
    [of "initial\<lparr>ac_color := (255, 255, 255), ac_color_hex := ''ffffff'', color_step := 1,
                  start_time := Some 0, score_num := 1000, enable_submit := True,
                   palette := [''fcfcfc'', ''ffffff'']\<rparr>"
      255 255 255 252 252 252 700 "[700, 900]"
      "\<lparr>score = 1000, tryCount = 0, startTime = Some 0, colorStep = 1,
             colors = [white], answer = Some white\<rparr>" 0 "''#fcfcfc''"
      "\<lparr>r = 252, g = 252, b = 252\<rparr>" white]
  by (auto simp: ConvertRGBtoHex_white ConvertRGBtoHex_252 initial_def fromHex_fcfcfc
      toString_fcfcfc eq_color_def white_eq simp del: submit_again.simps)

text \<open>
  C3. Submissions are disabled before any round is started and after a hit; a submission
  made then is ignored and leaves all globals, the try count and the score among them, as
  they were; \<open>make_problem\<close> enables submissions again with a try count of 0 and the
  initial score. In the class-based file the global \<open>game\<close> is \<open>null\<close> in the same two
  situations and \<open>submit\<close> returns at once; \<open>onTry\<close> on a game that was not started
  returns \<open>null\<close> and changes nothing.
\<close>

theorem submit_while_not_armed:
  "\<not> enable_submit initial
   \<and> (\<not> enable_submit s \<longrightarrow> submit s col now = Inr (Ignored, s))
   \<and> (enable_submit s \<and> ConvertRGBtoHex col = ac_color_hex s \<and> start_time s = Some t0 \<longrightarrow>
        (\<exists>out s'. submit s col now = Inr (out, s') \<and> \<not> enable_submit s'
           \<and> submit s' col' now' = Inr (Ignored, s')))
   \<and> (make_problem s num dif rnd now = Inr s1 \<longrightarrow>
        enable_submit s1 \<and> try_num s1 = 0 \<and> score_num s1 = (if dif = 1 then 1000 else 100))
   \<and> submit_hex None hex rnd now = Inr None
   \<and> (startTime gm = None \<longrightarrow> onTry gm hex now = Inr (None, gm, None))
   \<and> (startTime gm = Some t1 \<and> fromHex hex = Some color \<and> answer gm = Some a
        \<and> eq_color a (Some color) \<longrightarrow>
        submit_hex (Some gm) hex rnd now = Inr None)"
proof (intro conjI impI)
  show "\<not> enable_submit initial" by (simp add: initial_def)
  show "submit s col now = Inr (Ignored, s)" if "\<not> enable_submit s"
    using that by (rule submit_ignored)
  show "\<exists>out s'. submit s col now = Inr (out, s') \<and> \<not> enable_submit s'
           \<and> submit s' col' now' = Inr (Ignored, s')"
    if "enable_submit s \<and> ConvertRGBtoHex col = ac_color_hex s \<and> start_time s = Some t0"
    using that by (simp add: submit_hit submit_ignored)
  show "enable_submit s1" "try_num s1 = 0" "score_num s1 = (if dif = 1 then 1000 else 100)"
    if "make_problem s num dif rnd now = Inr s1"
    using make_problem_arms [OF that] by simp_all
  show "submit_hex None hex rnd now = Inr None" by (simp add: submit_hex_def)
  show "onTry gm hex now = Inr (None, gm, None)" if "startTime gm = None"
    using that by (rule onTry_not_started)
  show "submit_hex (Some gm) hex rnd now = Inr None"
    if "startTime gm = Some t1 \<and> fromHex hex = Some color \<and> answer gm = Some a
        \<and> eq_color a (Some color)"
    using that by (simp add: submit_hex_def onTry_success)
qed

theorem submit_while_not_armed_witness:
  "submit initial (255, 255, 255) 5 = Inr (Ignored, initial)
   \<and> (\<exists>out s'. submit (initial\<lparr>ac_color := (255, 255, 255), ac_color_hex := ''ffffff'',
                        color_step := 1, start_time := Some 0, score_num := 1000,
                        enable_submit := True\<rparr>) (255, 255, 255) 5 = Inr (out, s')
        \<and> \<not> enable_submit s' \<and> submit s' (252, 252, 252) 9 = Inr (Ignored, s'))
   \<and> (\<exists>s1. make_problem initial 3 1 (\<lambda>k. 0) 0 = Inr s1 \<and> enable_submit s1)
   \<and> submit_hex (Some \<lparr>score = 1000, tryCount = 0, startTime = Some 0, colorStep = 1,
                       colors = [white], answer = Some white\<rparr>) ''#ffffff'' (\<lambda>k. 0) 5 = Inr None"
proof (intro conjI)
  show "submit initial (255, 255, 255) 5 = Inr (Ignored, initial)"
    using submit_while_not_armed [where s = initial and col = "(255, 255, 255)" and now = 5]
    by (simp add: initial_def)
  show "\<exists>out s'. submit (initial\<lparr>ac_color := (255, 255, 255), ac_color_hex := ''ffffff'',
                        color_step := 1, start_time := Some 0, score_num := 1000,
                        enable_submit := True\<rparr>) (255, 255, 255) 5 = Inr (out, s')
        \<and> \<not> enable_submit s' \<and> submit s' (252, 252, 252) 9 = Inr (Ignored, s')"
    using submit_while_not_armed
      [where s = "initial\<lparr>ac_color := (255, 255, 255), ac_color_hex := ''ffffff'',
                        color_step := 1, start_time := Some 0, score_num := 1000,
                        enable_submit := True\<rparr>"
         and col = "(255, 255, 255)" and now = 5 and ?t0.0 = 0 and col' = "(252, 252, 252)"
         and now' = 9]
    by (simp add: ConvertRGBtoHex_white)
  have "\<not> isl (make_problem initial 3 1 (\<lambda>k. 0) 0)"
    by (simp add: make_problem_fails_iff random_source_zero floor_mul_def)
  then obtain s1 where s1: "make_problem initial 3 1 (\<lambda>k. 0) 0 = Inr s1"
    by (cases "make_problem initial 3 1 (\<lambda>k. 0) 0") auto
  then show "\<exists>s1. make_problem initial 3 1 (\<lambda>k. 0) 0 = Inr s1 \<and> enable_submit s1"
    using submit_while_not_armed
      [where s = initial and num = 3 and dif = 1 and rnd = "\<lambda>k. 0" and now = 0 and ?s1.0 = s1]
    by simp
  show "submit_hex (Some \<lparr>score = 1000, tryCount = 0, startTime = Some 0, colorStep = 1,
                       colors = [white], answer = Some white\<rparr>) ''#ffffff'' (\<lambda>k. 0) 5 = Inr None"
    using submit_while_not_armed
      [where gm = "\<lparr>score = 1000, tryCount = 0, startTime = Some 0, colorStep = 1,
                       colors = [white], answer = Some white\<rparr>"
         and hex = "''#ffffff''" and ?t1.0 = 0 and color = white and a = white
         and rnd = "\<lambda>k. 0" and now = 5]
    by (simp add: fromHex_ffffff eq_color_def)
qed

text \<open>
  C5. On a hit the comment is that of the first rule that applies, in this order: step
  not 1; first try; at most 10000 ms; at most 10 tries (the file with the score history
  only); else none. The try count compared is the one after the hit was counted. In
  particular a first try at step 1 gets the first-try comment whatever the time (the
  witness takes 20000 ms).
\<close>

theorem comment_of_a_hit:
  "(enable_submit s \<and> ConvertRGBtoHex col = ac_color_hex s \<and> start_time s = Some t0 \<longrightarrow>
      (\<exists>out s'. submit s col now = Inr (out, s')
         \<and> try_num s' = try_num s + 1 \<and> hit_time out = Some (now - t0)
         \<and> comment2 out =
             (if color_step s \<noteq> 1 then TutorialDone
              else if try_num s' = 1 then FirstTry
              else if now - t0 \<le> 10000 then FastSolve
              else if try_num s' \<le> 10 then WithinTen
              else NoComment)
         \<and> snd (shared out) = comment2 out
         \<and> (color_step s = 1 \<and> try_num s' = 1 \<longrightarrow> comment2 out = FirstTry)))
   \<and> (startTime gm = Some t1 \<and> fromHex hex = Some color \<and> answer gm = Some a
        \<and> eq_color a (Some color) \<longrightarrow>
      onTry gm hex now =
        Inr (Some True, gm\<lparr>tryCount := tryCount gm + 1\<rparr>,
             Some (ShowSuccess (now - t1)
                    (if colorStep gm \<noteq> 1 then TutorialDone
                     else if tryCount gm + 1 = 1 then FirstTry
                     else if now - t1 \<le> 10000 then FastSolve
                     else NoComment))))"
proof (intro conjI impI)
  assume "enable_submit s \<and> ConvertRGBtoHex col = ac_color_hex s \<and> start_time s = Some t0"
  then show "\<exists>out s'. submit s col now = Inr (out, s')
         \<and> try_num s' = try_num s + 1 \<and> hit_time out = Some (now - t0)
         \<and> comment2 out =
             (if color_step s \<noteq> 1 then TutorialDone
              else if try_num s' = 1 then FirstTry
              else if now - t0 \<le> 10000 then FastSolve
              else if try_num s' \<le> 10 then WithinTen
              else NoComment)
         \<and> snd (shared out) = comment2 out
         \<and> (color_step s = 1 \<and> try_num s' = 1 \<longrightarrow> comment2 out = FirstTry)"
    by (simp add: submit_hit classify_def)
next
  assume "startTime gm = Some t1 \<and> fromHex hex = Some color \<and> answer gm = Some a
        \<and> eq_color a (Some color)"
  then show "onTry gm hex now =
        Inr (Some True, gm\<lparr>tryCount := tryCount gm + 1\<rparr>,
             Some (ShowSuccess (now - t1)
                    (if colorStep gm \<noteq> 1 then TutorialDone
                     else if tryCount gm + 1 = 1 then FirstTry
                     else if now - t1 \<le> 10000 then FastSolve
                     else NoComment)))"
    by (simp add: onTry_success)
qed

theorem comment_of_a_hit_witness:
  "(\<exists>out s'. submit (initial\<lparr>ac_color := (255, 255, 255), ac_color_hex := ''ffffff'',
                    color_step := 1, start_time := Some 0, score_num := 1000,
                    enable_submit := True\<rparr>) (255, 255, 255) 20000 = Inr (out, s')
          \<and> try_num s' = 1 \<and> hit_time out = Some 20000 \<and> comment2 out = FirstTry
          \<and> snd (shared out) = FirstTry)
   \<and> onTry \<lparr>score = 1000, tryCount = 0, startTime = Some 0, colorStep = 1,
             colors = [white], answer = Some white\<rparr> ''#ffffff'' 20000
      = Inr (Some True,
             \<lparr>score = 1000, tryCount = 1, startTime = Some 0, colorStep = 1,
              colors = [white], answer = Some white\<rparr>,
             Some (ShowSuccess 20000 FirstTry))"
proof (intro conjI)
  let ?s = "initial\<lparr>ac_color := (255, 255, 255), ac_color_hex := ''ffffff'',
                    color_step := 1, start_time := Some 0, score_num := 1000,
                    enable_submit := True\<rparr>"
  have h: "enable_submit ?s \<and> ConvertRGBtoHex (255, 255, 255) = ac_color_hex ?s
           \<and> start_time ?s = Some 0"
    by (simp add: ConvertRGBtoHex_white)
  from comment_of_a_hit [THEN conjunct1, rule_format, OF h, of 20000]
  show "\<exists>out s'. submit ?s (255, 255, 255) 20000 = Inr (out, s')
          \<and> try_num s' = 1 \<and> hit_time out = Some 20000 \<and> comment2 out = FirstTry
          \<and> snd (shared out) = FirstTry"
    by (auto simp: initial_def)
  show "onTry \<lparr>score = 1000, tryCount = 0, startTime = Some 0, colorStep = 1,
             colors = [white], answer = Some white\<rparr> ''#ffffff'' 20000
      = Inr (Some True,
             \<lparr>score = 1000, tryCount = 1, startTime = Some 0, colorStep = 1,
              colors = [white], answer = Some white\<rparr>,
             Some (ShowSuccess 20000 FirstTry))"
    using comment_of_a_hit
      [where gm = "\<lparr>score = 1000, tryCount = 0, startTime = Some 0, colorStep = 1,
                       colors = [white], answer = Some white\<rparr>"
         and hex = "''#ffffff''" and ?t1.0 = 0 and color = white and a = white and now = 20000]
    by (simp add: fromHex_ffffff eq_color_def)
qed

text \<open>
  C6. On a hit at step 1 the score is appended to the history of five entries and the
  oldest entry is dropped; the average shown is the sum of the five entries divided by 5
  when all are scores, and the placeholder when one of them is the placeholder. The
  witness runs the rounds of the claim: the fifth score gives the average 940, the sixth
  round drops the 900.
\<close>

theorem hit_pushes_score_and_averages:
  assumes "enable_submit s" and "ConvertRGBtoHex col = ac_color_hex s"
    and "start_time s = Some t0" and "color_step s = 1"
    and "length (score_history5 s) = 5"
  shows "\<exists>out s' ave.
       submit s col now = Inr (out, s')
     \<and> score_history5 s' = tl (score_history5 s) @ [Score (score_num s)]
     \<and> length (score_history5 s') = 5
     \<and> score_num s' = score_num s
     \<and> ave_message out = Some (ave, score_history5 s')
     \<and> fst (shared out) = ave
     \<and> (Placeholder \<in> set (score_history5 s') \<longrightarrow> ave = Placeholder)
     \<and> (\<forall>vs. score_history5 s' = map Score vs \<longrightarrow> ave = Score (sum_list vs / 5))"
  using assms
  by (simp add: submit_hit average5_placeholder) (metis average5_scores)

theorem hit_pushes_score_and_averages_witness:
  "(\<exists>out s'. submit (initial\<lparr>ac_color := (255, 255, 255), ac_color_hex := ''ffffff'',
                   color_step := 1, start_time := Some 0, score_num := 1000,
                   enable_submit := True,
                   score_history5 := [Placeholder, Score 900, Score 950, Score 1000, Score 850]\<rparr>)
               (255, 255, 255) 12000 = Inr (out, s')
        \<and> score_history5 s' = [Score 900, Score 950, Score 1000, Score 850, Score 1000]
        \<and> ave_message out
            = Some (Score 940, [Score 900, Score 950, Score 1000, Score 850, Score 1000]))
   \<and> (\<exists>out s'. submit (initial\<lparr>ac_color := (255, 255, 255), ac_color_hex := ''ffffff'',
                   color_step := 1, start_time := Some 0, score_num := 700,
                   enable_submit := True,
                   score_history5 := [Score 900, Score 950, Score 1000, Score 850, Score 1000]\<rparr>)
               (255, 255, 255) 12000 = Inr (out, s')
        \<and> score_history5 s' = [Score 950, Score 1000, Score 850, Score 1000, Score 700]
        \<and> ave_message out
            = Some (Score 900, [Score 950, Score 1000, Score 850, Score 1000, Score 700]))
   \<and> (\<exists>out s'. submit (initial\<lparr>ac_color := (255, 255, 255), ac_color_hex := ''ffffff'',
                   color_step := 1, start_time := Some 0, score_num := 900,
                   enable_submit := True\<rparr>)
               (255, 255, 255) 12000 = Inr (out, s')
        \<and> ave_message out
            = Some (Placeholder, [Placeholder, Placeholder, Placeholder, Placeholder, Score 900]))"
proof (intro conjI)
  let ?s = "initial\<lparr>ac_color := (255, 255, 255), ac_color_hex := ''ffffff'',
                   color_step := 1, start_time := Some 0, score_num := 1000,
                   enable_submit := True,
                   score_history5 := [Placeholder, Score 900, Score 950, Score 1000, Score 850]\<rparr>"
  have "enable_submit ?s" "ConvertRGBtoHex (255, 255, 255) = ac_color_hex ?s"
    "start_time ?s = Some 0" "color_step ?s = 1" "length (score_history5 ?s) = 5"
    by (simp_all add: ConvertRGBtoHex_white)
  from hit_pushes_score_and_averages [OF this, of 12000]
  obtain out s' ave where o: "submit ?s (255, 255, 255) 12000 = Inr (out, s')"
    "score_history5 s' = [Score 900, Score 950, Score 1000, Score 850, Score 1000]"
    "ave_message out = Some (ave, score_history5 s')"
    "\<forall>vs. score_history5 s' = map Score vs \<longrightarrow> ave = Score (sum_list vs / 5)"
    by auto
  have "score_history5 s' = map Score [900, 950, 1000, 850, 1000]"
    by (simp add: o(2))
  then have "ave = Score (sum_list [900, 950, 1000, 850, 1000] / 5)"
    using o(4) by blast
  then have "ave = Score 940" by simp
  then show "\<exists>out s'. submit ?s (255, 255, 255) 12000 = Inr (out, s')
        \<and> score_history5 s' = [Score 900, Score 950, Score 1000, Score 850, Score 1000]
        \<and> ave_message out
            = Some (Score 940, [Score 900, Score 950, Score 1000, Score 850, Score 1000])"
    using o(1-3) by simp
next
  let ?s = "initial\<lparr>ac_color := (255, 255, 255), ac_color_hex := ''ffffff'',
                   color_step := 1, start_time := Some 0, score_num := 700,
                   enable_submit := True,
                   score_history5 := [Score 900, Score 950, Score 1000, Score 850, Score 1000]\<rparr>"
  have "enable_submit ?s" "ConvertRGBtoHex (255, 255, 255) = ac_color_hex ?s"
    "start_time ?s = Some 0" "color_step ?s = 1" "length (score_history5 ?s) = 5"
    by (simp_all add: ConvertRGBtoHex_white)
  from hit_pushes_score_and_averages [OF this, of 12000]
  obtain out s' ave where o: "submit ?s (255, 255, 255) 12000 = Inr (out, s')"
    "score_history5 s' = [Score 950, Score 1000, Score 850, Score 1000, Score 700]"
    "ave_message out = Some (ave, score_history5 s')"
    "\<forall>vs. score_history5 s' = map Score vs \<longrightarrow> ave = Score (sum_list vs / 5)"
    by auto
  have "score_history5 s' = map Score [950, 1000, 850, 1000, 700]"
    by (simp add: o(2))
  then have "ave = Score (sum_list [950, 1000, 850, 1000, 700] / 5)"
    using o(4) by blast
  then have "ave = Score 900" by simp
  then show "\<exists>out s'. submit ?s (255, 255, 255) 12000 = Inr (out, s')
        \<and> score_history5 s' = [Score 950, Score 1000, Score 850, Score 1000, Score 700]
        \<and> ave_message out
            = Some (Score 900, [Score 950, Score 1000, Score 850, Score 1000, Score 700])"
    using o(1-3) by simp
next
  let ?s = "initial\<lparr>ac_color := (255, 255, 255), ac_color_hex := ''ffffff'',
                   color_step := 1, start_time := Some 0, score_num := 900,
                   enable_submit := True\<rparr>"
  have "enable_submit ?s" "ConvertRGBtoHex (255, 255, 255) = ac_color_hex ?s"
    "start_time ?s = Some 0" "color_step ?s = 1" "length (score_history5 ?s) = 5"
    by (simp_all add: ConvertRGBtoHex_white initial_def)
  from hit_pushes_score_and_averages [OF this, of 12000]
  obtain out s' ave where o: "submit ?s (255, 255, 255) 12000 = Inr (out, s')"
    "score_history5 s' = [Placeholder, Placeholder, Placeholder, Placeholder, Score 900]"
    "ave_message out = Some (ave, score_history5 s')"
    "Placeholder \<in> set (score_history5 s') \<longrightarrow> ave = Placeholder"
    by (auto simp: initial_def)
  have "ave = Placeholder" using o(2,4) by simp
  then show "\<exists>out s'. submit ?s (255, 255, 255) 12000 = Inr (out, s')
        \<and> ave_message out
            = Some (Placeholder, [Placeholder, Placeholder, Placeholder, Placeholder, Score 900])"
    using o(1-3) by simp
qed

text \<open>
  C9, as amended. Neither file checks the count or the step. \<open>make_problem\<close> raises
  exactly when the count exceeds 216 or the index of the answer \<open>\<lfloor>random * count\<rfloor>\<close> is
  negative, and \<open>start\<close> of the class-based file exactly when the sliced palette is
  empty (a count of 0, or of -216 or less); in both the error is the \<open>TypeError\<close> of a
  property read on \<open>undefined\<close>, and the step plays no part in it.
\<close>

theorem start_round_checks_nothing:
  assumes "random_source rnd"
  shows "(isl (make_problem s num dif rnd now) \<longleftrightarrow> 216 < num \<or> floor_mul (rnd 215) num < 0)
       \<and> (isl (start num dif rnd now) \<longleftrightarrow> num = 0 \<or> num \<le> - 216)"
  using assms by (simp only: make_problem_fails_iff start_fails_iff)

theorem start_round_checks_nothing_witness:
  "\<not> isl (make_problem initial 3 0 (\<lambda>k. 0) 0) \<and> \<not> isl (start 3 0 (\<lambda>k. 0) 0)
   \<and> isl (make_problem initial 217 1 (\<lambda>k. 0) 0) \<and> \<not> isl (start 217 1 (\<lambda>k. 0) 0)
   \<and> \<not> isl (make_problem initial 0 1 (\<lambda>k. 0) 0) \<and> isl (start 0 1 (\<lambda>k. 0) 0)"
  using start_round_checks_nothing [OF random_source_zero, of initial 3 0 0]
    start_round_checks_nothing [OF random_source_zero, of initial 217 1 0]
    start_round_checks_nothing [OF random_source_zero, of initial 0 1 0]
  by (simp add: floor_mul_def)

text \<open>
  C9 as stated fails: with the non-positive step 0 and the count 3 both files start a
  round, with a palette of three times pure white and the score 100.
\<close>

theorem step_0_starts_a_round:
  "make_problem initial 3 0 (\<lambda>k. 0) 0 =
     Inr (initial\<lparr>color_step := 0, palette := [''ffffff'', ''ffffff'', ''ffffff''],
                 ac_color := (255, 255, 255), ac_color_hex := ''ffffff'',
                 score_num := 100, start_time := Some 0, enable_submit := True\<rparr>)
   \<and> start 3 0 (\<lambda>k. 0) 0 =
     Inr (Some \<lparr>score = 100, tryCount = 0, startTime = Some 0, colorStep = 0,
                colors = [white, white, white], answer = Some white\<rparr>)"
proof
  let ?l = "shuffle (\<lambda>k. 0) (lattice 0)"
  have "\<forall>c \<in> set ?l. c = (255, 255, 255)"
    by (simp add: set_shuffle random_source_zero set_lattice_0)
  then have "?l = replicate (length ?l) (255, 255, 255)" by (rule all_same_replicate)
  then have l: "?l = replicate 216 (255, 255, 255)"
    by (simp add: length_shuffle length_lattice)
  show "make_problem initial 3 0 (\<lambda>k. 0) 0 =
     Inr (initial\<lparr>color_step := 0, palette := [''ffffff'', ''ffffff'', ''ffffff''],
                 ac_color := (255, 255, 255), ac_color_hex := ''ffffff'',
                 score_num := 100, start_time := Some 0, enable_submit := True\<rparr>)"
    by (simp add: make_problem_def l length_lattice array_get_def floor_mul_def
        ConvertRGBtoHex_white initial_def eval_nat_numeral)
next
  let ?cs = "colors (new_Game 3 0 (\<lambda>k. 0))"
  have len: "length ?cs = 3" by (simp add: length_colors_new_Game)
  have "set ?cs \<subseteq> set (shuffle (\<lambda>k. 0) (Game_colors 0))"
    by (simp add: colors_new_Game slice0_def set_take_subset)
  then have "\<forall>c \<in> set ?cs. c = white"
    by (auto simp: set_shuffle random_source_zero set_Game_colors_0)
  then have "?cs = replicate (length ?cs) white" by (rule all_same_replicate)
  then have cs: "?cs = [white, white, white]"
    by (simp add: len eval_nat_numeral)
  have "answer (new_Game 3 0 (\<lambda>k. 0)) = Some white"
    unfolding answer_new_Game cs by (simp add: array_get_def floor_mul_def)
  moreover have "score (new_Game 3 0 (\<lambda>k. 0)) = 100" "tryCount (new_Game 3 0 (\<lambda>k. 0)) = 0"
    "colorStep (new_Game 3 0 (\<lambda>k. 0)) = 0"
    by (simp_all add: new_Game_def Let_def)
  ultimately show "start 3 0 (\<lambda>k. 0) 0 =
     Inr (Some \<lparr>score = 100, tryCount = 0, startTime = Some 0, colorStep = 0,
                colors = [white, white, white], answer = Some white\<rparr>)"
    using cs by (simp add: start_def Game_start_def)
qed

end
